theory Spec2Isabelle
  imports Complex_Main
begin

section \<open>Tensors and the host library\<close>

text \<open>
  The quantize operations of \<^verbatim>\<open>vitis_quantize_ops.py\<close> work on TensorFlow tensors.
  Tensor elements are reals. The quantize and dequantize kernels and \<open>dpu_round\<close> round
  the result of every sum, difference, product and quotient as float32 arithmetic does
  (\<open>fl32\<close> below): the kernels cast the bit width to float32, which fixes the element type.
  The non-overflow position and threshold are float32 computations as well. The range, the
  scale, the zero point, the quantization errors of the min-diffs search and the backward
  functions are computed without rounding. A data tensor is given by its slices
  along the channel axis: one inner list per channel, holding the elements of that channel.
  Reducing over \<^verbatim>\<open>reduce_dims\<close> (all axes but the channel axis, \<^verbatim>\<open>keepdims=True\<close>) is then a
  reduction of every inner list, and a reduction without axes runs over the concatenation.
  A statistic (minimum, maximum, scale, position, threshold) is a list of reals: a single
  entry for a per-tensor scalar, one entry per channel otherwise.

  The elementwise functions of the source (rounding, quantize and dequantize kernels, zero
  point, scale, non-overflow position) are written on one element; \<open>bc\<close> is TensorFlow's
  broadcasting of a data tensor against a statistic.
\<close>

type_synonym tensor = "real list list"
type_synonym stat = "real list"

definition bc :: "('a \<Rightarrow> 'b \<Rightarrow> 'c) \<Rightarrow> 'a list list \<Rightarrow> 'b list \<Rightarrow> 'c list list" where
  "bc f t s =
     (if length s = 1 then map (map (\<lambda>x. f x (hd s))) t
      else map2 (\<lambda>c v. map (\<lambda>x. f x v) c) t s)"

definition ew2 :: "('a \<Rightarrow> 'b \<Rightarrow> 'c) \<Rightarrow> 'a list list \<Rightarrow> 'b list list \<Rightarrow> 'c list list" where
  \<comment> \<open>an elementwise operation on two tensors of the same shape\<close>
  "ew2 f a b = map2 (map2 f) a b"

definition reduce_sum :: "real list \<Rightarrow> real" where
  "reduce_sum xs = sum_list xs"

definition reduce_min :: "real list \<Rightarrow> real" where
  \<comment> \<open>\<^verbatim>\<open>tf.math.reduce_min\<close>; on an empty tensor TensorFlow yields infinity, which is no real\<close>
  "reduce_min xs = Min (set xs)"

definition reduce_max :: "real list \<Rightarrow> real" where
  "reduce_max xs = Max (set xs)"

definition tf_round :: "real \<Rightarrow> real" where
  \<comment> \<open>\<^verbatim>\<open>tf.math.round\<close>: to the nearest integer, a tie to the even one\<close>
  "tf_round x =
     (let f = \<lfloor>x\<rfloor>; d = x - of_int f
      in if d < 1 / 2 then of_int f
         else if 1 / 2 < d then of_int f + 1
         else if even f then of_int f else of_int f + 1)"

definition fl32 :: "real \<Rightarrow> real" where
  \<comment> \<open>the float32 value nearest to a real, a tie to the even significand: a significand of
      24 bits; the exponent is not bounded, so overflow and underflow are outside the model\<close>
  "fl32 x =
     (if x = 0 then 0
      else let e = \<lfloor>log 2 \<bar>x\<bar>\<rfloor>; ulp = 2 powr (of_int e - 23)
           in tf_round (x / ulp) * ulp)"

definition clip_by_value :: "real \<Rightarrow> real \<Rightarrow> real \<Rightarrow> real" where
  \<comment> \<open>\<^verbatim>\<open>tf.clip_by_value(t, lo, hi)\<close> is \<^verbatim>\<open>minimum(maximum(t, lo), hi)\<close>\<close>
  "clip_by_value t lo hi = min (max t lo) hi"

fun first_index :: "('a \<Rightarrow> bool) \<Rightarrow> 'a list \<Rightarrow> nat" where
  "first_index P [] = 0"
| "first_index P (x # xs) = (if P x then 0 else Suc (first_index P xs))"

definition tf_argmin :: "real list \<Rightarrow> nat" where
  \<comment> \<open>\<^verbatim>\<open>tf.argmin\<close> of a vector: the index of the smallest value, the smallest index on a tie\<close>
  "tf_argmin ds = first_index (\<lambda>d. d = Min (set ds)) ds"

definition float_info_epsilon :: real where
  \<comment> \<open>\<^verbatim>\<open>sys.float_info.epsilon\<close>\<close>
  "float_info_epsilon = 1 / 2 ^ 52"

definition narrow_range :: bool where
  \<comment> \<open>the module-level flag of the source\<close>
  "narrow_range = False"

section \<open>Rounding\<close>

definition std_round :: "real \<Rightarrow> real" where
  "std_round x =
     (let floored = of_int \<lfloor>x\<rfloor>;
          ceiled = of_int \<lceil>x\<rceil>;
          rounded = tf_round x;
          rounded_half = (if x > 0 then ceiled else floored)
      in if x - floored = 0.5 then rounded_half else rounded)"

definition py3_round :: "real \<Rightarrow> real" where
  "py3_round x = tf_round x"

definition dpu_round :: "real \<Rightarrow> real" where
  "dpu_round x = of_int \<lfloor>fl32 (x + 0.5)\<rfloor>"

section \<open>Quantize and dequantize kernels\<close>

definition py3_asym_quantize :: "real \<Rightarrow> real \<Rightarrow> real \<Rightarrow> real \<Rightarrow> real \<Rightarrow> real" where
  "py3_asym_quantize inputs scale shift q_min q_max =
     (let rounded = py3_round (fl32 (fl32 (inputs - shift) * scale))
      in clip_by_value (fl32 (q_min + rounded)) q_min q_max)"

definition dpu_asym_quantize :: "real \<Rightarrow> real \<Rightarrow> real \<Rightarrow> real \<Rightarrow> real \<Rightarrow> real" where
  "dpu_asym_quantize inputs scale shift q_min q_max =
     (let rounded = dpu_round (fl32 (fl32 (inputs - shift) * scale))
      in clip_by_value (fl32 (q_min + rounded)) q_min q_max)"

definition py3_sym_quantize :: "real \<Rightarrow> real \<Rightarrow> real \<Rightarrow> real \<Rightarrow> real" where
  "py3_sym_quantize inputs scale q_min q_max =
     (let rounded = py3_round (fl32 (inputs * scale))
      in clip_by_value rounded q_min q_max)"

definition dpu_sym_quantize :: "real \<Rightarrow> real \<Rightarrow> real \<Rightarrow> real \<Rightarrow> real" where
  "dpu_sym_quantize inputs scale q_min q_max =
     (let rounded = dpu_round (fl32 (inputs * scale))
      in clip_by_value rounded q_min q_max)"

definition asym_dequantize :: "real \<Rightarrow> real \<Rightarrow> real \<Rightarrow> real \<Rightarrow> real \<Rightarrow> real" where
  "asym_dequantize inputs scale shift q_min q_max =
     fl32 (fl32 (fl32 (inputs - q_min) / scale) + shift)"

definition sym_dequantize :: "real \<Rightarrow> real \<Rightarrow> real \<Rightarrow> real \<Rightarrow> real" where
  "sym_dequantize inputs scale q_min q_max = fl32 (inputs / scale)"

definition quantize_zero_point ::
  "real \<Rightarrow> real \<Rightarrow> real \<Rightarrow> real \<Rightarrow> real \<Rightarrow> real \<times> real \<times> real" where
  "quantize_zero_point scale f_min f_max q_min q_max =
     (let f_zero_point = q_min - f_min * scale;
          below_min = (f_zero_point < q_min);
          above_max = (f_zero_point > q_max);
          q_zero_point = std_round f_zero_point;
          q_zero_point = (if below_min then q_min else q_zero_point);
          q_zero_point = (if above_max then q_max else q_zero_point);
          new_f_min = (q_min - q_zero_point) / scale;
          new_f_max = (q_max - q_zero_point) / scale
      in (q_zero_point, new_f_min, new_f_max))"

definition get_scale :: "real \<Rightarrow> real \<Rightarrow> real \<Rightarrow> real \<Rightarrow> real" where
  "get_scale f_min f_max q_min q_max = (q_max - q_min) / (f_max - f_min)"

definition get_min_max :: "tensor \<Rightarrow> nat \<Rightarrow> bool \<Rightarrow> bool \<Rightarrow> stat \<times> stat" where
  \<comment> \<open>with \<open>per_channel\<close>, an input of rank below 2 is its own minimum and maximum: every
      element is a channel of its own, and the reduction of a one-element slice is that element\<close>
  "get_min_max inputs bit_width symmetry per_channel =
     (let (batch_min, batch_max) =
            (if per_channel then (map reduce_min inputs, map reduce_max inputs)
             else ([reduce_min (concat inputs)], [reduce_max (concat inputs)]))
      in if symmetry then
           if narrow_range then
             (map2 (\<lambda>mn mx. min mn (- mx)) batch_min batch_max,
              map2 (\<lambda>mn mx. max mx (- mn)) batch_min batch_max)
           else
             let min_max_ratio = - (2 ^ bit_width - 2) / 2 ^ bit_width
             in (map2 (\<lambda>mn mx. min mn (mx / min_max_ratio)) batch_min batch_max,
                 map2 (\<lambda>mn mx. max mx (mn * min_max_ratio)) batch_min batch_max)
         else (map (\<lambda>mn. min mn 0) batch_min, map (\<lambda>mx. max mx 0) batch_max))"

section \<open>Fake-quantize kernels with their backward functions\<close>

text \<open>
  Every kernel of the source is decorated with \<^verbatim>\<open>tf.custom_gradient\<close> and returns the pair of
  the dequantized tensor and the function \<^verbatim>\<open>grad_fn\<close>. The gradients that the source returns
  as \<^verbatim>\<open>None\<close> (bit width, quantize position, reduce dimensions) are left out of the tuples.
\<close>

definition q_range :: "nat \<Rightarrow> real \<times> real" where
  \<comment> \<open>the block that opens every kernel: \<^verbatim>\<open>bound = pow(2.0, bit_width - 1)\<close>, \<open>q_min\<close>, \<open>q_max\<close>\<close>
  "q_range bit_width =
     (let bound = 2 powr (real bit_width - 1);
          q_min = - bound;
          q_min = (if narrow_range then q_min + 1 else q_min);
          q_max = bound - 1
      in (q_min, q_max))"

definition where_mask :: "tensor \<Rightarrow> bool list list \<Rightarrow> tensor" where
  \<comment> \<open>\<^verbatim>\<open>dy * tf.where(mask, ones, zeros)\<close>\<close>
  "where_mask dy msk = ew2 (\<lambda>d b. d * (if b then 1 else 0)) dy msk"

definition min_max_asym_elem :: "real \<Rightarrow> real \<Rightarrow> real \<Rightarrow> real \<times> real \<Rightarrow> real" where
  \<comment> \<open>the forward pass of the asymmetric min-max kernels on one element\<close>
  "min_max_asym_elem q_min q_max x mm =
     (let (f_min, f_max) = mm;
          scale = get_scale f_min f_max q_min q_max;
          (q_zero_point, new_f_min, new_f_max) = quantize_zero_point scale f_min f_max q_min q_max;
          shift = new_f_min;
          quantized = py3_asym_quantize x scale shift q_min q_max
      in asym_dequantize quantized scale shift q_min q_max)"

definition new_f_range :: "real \<Rightarrow> real \<Rightarrow> real \<times> real \<Rightarrow> real \<times> real" where
  \<comment> \<open>\<open>new_f_min\<close> and \<open>new_f_max\<close> of the asymmetric min-max kernels, read by their \<^verbatim>\<open>grad_fn\<close>\<close>
  "new_f_range q_min q_max mm =
     (let (f_min, f_max) = mm;
          scale = get_scale f_min f_max q_min q_max;
          (q_zero_point, new_f_min, new_f_max) = quantize_zero_point scale f_min f_max q_min q_max
      in (new_f_min, new_f_max))"

definition fake_quantize_with_min_max_py3_asym ::
  "tensor \<Rightarrow> stat \<Rightarrow> stat \<Rightarrow> nat \<Rightarrow> tensor \<times> (tensor \<Rightarrow> tensor \<times> real \<times> real)" where
  "fake_quantize_with_min_max_py3_asym inputs f_min f_max bit_width =
     (let (q_min, q_max) = q_range bit_width;
          new_f = map (new_f_range q_min q_max) (zip f_min f_max);
          dequantized = bc (min_max_asym_elem q_min q_max) inputs (zip f_min f_max);
          grad_fn = (\<lambda>dy.
            let between_min_max = bc (\<lambda>x (new_f_min, new_f_max). x \<ge> new_f_min \<and> x \<le> new_f_max) inputs new_f;
                below_min = bc (\<lambda>x (new_f_min, new_f_max). x < new_f_min) inputs new_f;
                above_max = bc (\<lambda>x (new_f_min, new_f_max). x > new_f_max) inputs new_f;
                grad_wrt_inputs = where_mask dy between_min_max;
                grad_wrt_f_min = reduce_sum (concat (where_mask dy below_min));
                grad_wrt_f_max = reduce_sum (concat (where_mask dy above_max))
            in (grad_wrt_inputs, grad_wrt_f_min, grad_wrt_f_max))
      in (dequantized, grad_fn))"

definition fake_quantize_with_min_max_py3_asym_perc ::
  "tensor \<Rightarrow> stat \<Rightarrow> stat \<Rightarrow> nat \<Rightarrow> tensor \<times> (tensor \<Rightarrow> tensor \<times> stat \<times> stat)" where
  "fake_quantize_with_min_max_py3_asym_perc inputs f_min f_max bit_width =
     (let (q_min, q_max) = q_range bit_width;
          new_f = map (new_f_range q_min q_max) (zip f_min f_max);
          dequantized = bc (min_max_asym_elem q_min q_max) inputs (zip f_min f_max);
          grad_fn = (\<lambda>dy.
            let between_min_max = bc (\<lambda>x (new_f_min, new_f_max). x \<ge> new_f_min \<and> x \<le> new_f_max) inputs new_f;
                below_min = bc (\<lambda>x (new_f_min, new_f_max). x < new_f_min) inputs new_f;
                above_max = bc (\<lambda>x (new_f_min, new_f_max). x > new_f_max) inputs new_f;
                grad_wrt_inputs = where_mask dy between_min_max;
                grad_wrt_f_min = map reduce_sum (where_mask dy below_min);
                grad_wrt_f_max = map reduce_sum (where_mask dy above_max)
            in (grad_wrt_inputs, grad_wrt_f_min, grad_wrt_f_max))
      in (dequantized, grad_fn))"

definition min_max_sym_elem :: "real \<Rightarrow> real \<Rightarrow> real \<Rightarrow> real \<times> real \<Rightarrow> real" where
  \<comment> \<open>the forward pass of the symmetric min-max kernels on one element\<close>
  "min_max_sym_elem q_min q_max x mm =
     (let (f_min, f_max) = mm;
          scale = get_scale f_min f_max q_min q_max;
          quantized = py3_sym_quantize x scale q_min q_max
      in sym_dequantize quantized scale q_min q_max)"

definition fake_quantize_with_min_max_py3_sym ::
  "tensor \<Rightarrow> stat \<Rightarrow> stat \<Rightarrow> nat \<Rightarrow> tensor \<times> (tensor \<Rightarrow> tensor \<times> real \<times> real)" where
  "fake_quantize_with_min_max_py3_sym inputs f_min f_max bit_width =
     (let (q_min, q_max) = q_range bit_width;
          dequantized = bc (min_max_sym_elem q_min q_max) inputs (zip f_min f_max);
          grad_fn = (\<lambda>dy.
            let between_min_max = bc (\<lambda>x (f_min, f_max). x \<ge> f_min \<and> x \<le> f_max) inputs (zip f_min f_max);
                below_min = bc (\<lambda>x f_min. x < f_min) inputs f_min;
                above_max = bc (\<lambda>x f_max. x > f_max) inputs f_max;
                grad_wrt_inputs = where_mask dy between_min_max;
                grad_wrt_f_min = reduce_sum (concat (where_mask dy below_min));
                grad_wrt_f_max = reduce_sum (concat (where_mask dy above_max))
            in (grad_wrt_inputs, grad_wrt_f_min, grad_wrt_f_max))
      in (dequantized, grad_fn))"

definition fake_quantize_with_min_max_py3_sym_perc ::
  "tensor \<Rightarrow> stat \<Rightarrow> stat \<Rightarrow> nat \<Rightarrow> tensor \<times> (tensor \<Rightarrow> tensor \<times> stat \<times> stat)" where
  "fake_quantize_with_min_max_py3_sym_perc inputs f_min f_max bit_width =
     (let (q_min, q_max) = q_range bit_width;
          dequantized = bc (min_max_sym_elem q_min q_max) inputs (zip f_min f_max);
          grad_fn = (\<lambda>dy.
            let between_min_max = bc (\<lambda>x (f_min, f_max). x \<ge> f_min \<and> x \<le> f_max) inputs (zip f_min f_max);
                below_min = bc (\<lambda>x f_min. x < f_min) inputs f_min;
                above_max = bc (\<lambda>x f_max. x > f_max) inputs f_max;
                grad_wrt_inputs = where_mask dy between_min_max;
                grad_wrt_f_min = map reduce_sum (where_mask dy below_min);
                grad_wrt_f_max = map reduce_sum (where_mask dy above_max)
            in (grad_wrt_inputs, grad_wrt_f_min, grad_wrt_f_max))
      in (dequantized, grad_fn))"

definition quantize_pos_sym_elem ::
  "(real \<Rightarrow> real \<Rightarrow> real \<Rightarrow> real \<Rightarrow> real) \<Rightarrow> real \<Rightarrow> real \<Rightarrow> real \<Rightarrow> real \<Rightarrow> real" where
  \<comment> \<open>the forward pass of the symmetric power-of-two kernels on one element, for the quantize
      function \<open>quantize\<close> (\<open>py3_sym_quantize\<close> or \<open>dpu_sym_quantize\<close>)\<close>
  "quantize_pos_sym_elem quantize q_min q_max x quantize_pos =
     (let scale = 2 powr quantize_pos;
          quantized = quantize x scale q_min q_max
      in sym_dequantize quantized scale q_min q_max)"

definition quantize_pos_asym_elem ::
  "(real \<Rightarrow> real \<Rightarrow> real \<Rightarrow> real \<Rightarrow> real \<Rightarrow> real) \<Rightarrow> real \<Rightarrow> real \<Rightarrow> real \<Rightarrow> real \<times> real \<times> real \<Rightarrow> real" where
  \<comment> \<open>the same for the asymmetric power-of-two kernels\<close>
  "quantize_pos_asym_elem quantize q_min q_max x pmm =
     (let (quantize_pos, f_min, f_max) = pmm;
          scale = 2 powr quantize_pos;
          (q_zero_point, new_f_min, new_f_max) = quantize_zero_point scale f_min f_max q_min q_max;
          shift = new_f_min;
          quantized = quantize x scale shift q_min q_max
      in asym_dequantize quantized scale shift q_min q_max)"

definition fake_quantize_with_quantize_pos_py3_sym ::
  "tensor \<Rightarrow> stat \<Rightarrow> nat \<Rightarrow> tensor \<times> (tensor \<Rightarrow> tensor)" where
  "fake_quantize_with_quantize_pos_py3_sym inputs quantize_pos bit_width =
     (let (q_min, q_max) = q_range bit_width;
          dequantized = bc (quantize_pos_sym_elem py3_sym_quantize q_min q_max) inputs quantize_pos
      in (dequantized, \<lambda>dy. dy))"

definition fake_quantize_with_quantize_pos_py3_asym ::
  "tensor \<Rightarrow> stat \<Rightarrow> stat \<Rightarrow> stat \<Rightarrow> nat \<Rightarrow> tensor \<times> (tensor \<Rightarrow> tensor)" where
  "fake_quantize_with_quantize_pos_py3_asym inputs quantize_pos f_min f_max bit_width =
     (let (q_min, q_max) = q_range bit_width;
          dequantized = bc (quantize_pos_asym_elem py3_asym_quantize q_min q_max) inputs
                           (zip quantize_pos (zip f_min f_max))
      in (dequantized, \<lambda>dy. dy))"

definition fake_quantize_with_quantize_pos_py3_sym_perc ::
  "tensor \<Rightarrow> stat \<Rightarrow> nat \<Rightarrow> tensor \<times> (tensor \<Rightarrow> tensor)" where
  "fake_quantize_with_quantize_pos_py3_sym_perc inputs quantize_pos bit_width =
     (let (q_min, q_max) = q_range bit_width;
          dequantized = bc (quantize_pos_sym_elem py3_sym_quantize q_min q_max) inputs quantize_pos
      in (dequantized, \<lambda>dy. dy))"

definition fake_quantize_with_quantize_pos_py3_asym_perc ::
  "tensor \<Rightarrow> stat \<Rightarrow> stat \<Rightarrow> stat \<Rightarrow> nat \<Rightarrow> tensor \<times> (tensor \<Rightarrow> tensor)" where
  "fake_quantize_with_quantize_pos_py3_asym_perc inputs quantize_pos f_min f_max bit_width =
     (let (q_min, q_max) = q_range bit_width;
          dequantized = bc (quantize_pos_asym_elem py3_asym_quantize q_min q_max) inputs
                           (zip quantize_pos (zip f_min f_max))
      in (dequantized, \<lambda>dy. dy))"

definition fake_quantize_with_quantize_pos_dpu_sym ::
  "tensor \<Rightarrow> stat \<Rightarrow> nat \<Rightarrow> tensor \<times> (tensor \<Rightarrow> tensor)" where
  "fake_quantize_with_quantize_pos_dpu_sym inputs quantize_pos bit_width =
     (let (q_min, q_max) = q_range bit_width;
          dequantized = bc (quantize_pos_sym_elem dpu_sym_quantize q_min q_max) inputs quantize_pos
      in (dequantized, \<lambda>dy. dy))"

definition fake_quantize_with_quantize_pos_dpu_asym ::
  "tensor \<Rightarrow> stat \<Rightarrow> stat \<Rightarrow> stat \<Rightarrow> nat \<Rightarrow> tensor \<times> (tensor \<Rightarrow> tensor)" where
  "fake_quantize_with_quantize_pos_dpu_asym inputs quantize_pos f_min f_max bit_width =
     (let (q_min, q_max) = q_range bit_width;
          dequantized = bc (quantize_pos_asym_elem dpu_asym_quantize q_min q_max) inputs
                           (zip quantize_pos (zip f_min f_max))
      in (dequantized, \<lambda>dy. dy))"

definition fake_quantize_with_log_th ::
  "(real \<Rightarrow> real) \<Rightarrow> (real \<Rightarrow> real \<Rightarrow> real \<Rightarrow> real \<Rightarrow> real) \<Rightarrow>
   tensor \<Rightarrow> stat \<Rightarrow> nat \<Rightarrow> tensor \<times> (tensor \<Rightarrow> tensor \<times> real)" where
  \<comment> \<open>the body shared by the two log-threshold kernels, for the rounding \<open>rnd\<close> and the
      quantize function \<open>quantize\<close>\<close>
  "fake_quantize_with_log_th rnd quantize inputs log_th bit_width =
     (let (q_min, q_max) = q_range bit_width;
          quantize_pos = map (\<lambda>th. real bit_width - 1 - of_int \<lceil>th\<rceil>) log_th;
          scale = map (\<lambda>p. 2 powr p) quantize_pos;
          quantized = bc (\<lambda>x s. quantize x s q_min q_max) inputs scale;
          dequantized = bc (\<lambda>q s. sym_dequantize q s q_min q_max) quantized scale;
          grad_fn = (\<lambda>dy.
            let scaled = bc (\<lambda>x s. x * s) inputs scale;
                rounded = map (map rnd) scaled;
                between_min_max = map (map (\<lambda>r. r \<ge> q_min \<and> r \<le> q_max)) rounded;
                grad_wrt_inputs = where_mask dy between_min_max;
                inside = ew2 (\<lambda>d x. d - x) dequantized inputs;
                outside = bc (\<lambda>q s. q / s) quantized scale;
                chosen = ew2 (\<lambda>b (i, out). if b then i else out) between_min_max (ew2 Pair inside outside);
                grad_wrt_log_th = reduce_sum (concat (ew2 (\<lambda>d c. d * ln 2 * c) dy chosen))
            in (grad_wrt_inputs, grad_wrt_log_th))
      in (dequantized, grad_fn))"

definition fake_quantize_with_log_th_py3_sym ::
  "tensor \<Rightarrow> stat \<Rightarrow> nat \<Rightarrow> tensor \<times> (tensor \<Rightarrow> tensor \<times> real)" where
  "fake_quantize_with_log_th_py3_sym = fake_quantize_with_log_th py3_round py3_sym_quantize"

definition fake_quantize_with_log_th_dpu_sym ::
  "tensor \<Rightarrow> stat \<Rightarrow> nat \<Rightarrow> tensor \<times> (tensor \<Rightarrow> tensor \<times> real)" where
  "fake_quantize_with_log_th_dpu_sym = fake_quantize_with_log_th dpu_round dpu_sym_quantize"

section \<open>Kernel selection\<close>

datatype error =
    InvalidRoundMode int
  | InvalidQuantizeKernel string
  | NotImplementedError
  | TypeError

definition logger_error :: "error \<Rightarrow> error + 'a" where
  \<comment> \<open>Modelled from the spec: \<^verbatim>\<open>common_utils.VAILogger.error\<close> is not among the sources; a
      configuration error fails fast at call time, so the call ends with the error\<close>
  "logger_error e = Inl e"

datatype kernel =
    MIN_MAX_PY3_SYM | MIN_MAX_PY3_SYM_PERC | MIN_MAX_PY3_ASYM | MIN_MAX_PY3_ASYM_PERC
  | QUANTIZE_POS_PY3_SYM | QUANTIZE_POS_PY3_ASYM | QUANTIZE_POS_PY3_SYM_PERC
  | QUANTIZE_POS_PY3_ASYM_PERC | QUANTIZE_POS_DPU_SYM | QUANTIZE_POS_DPU_ASYM
  | LOG_TH_PY3_SYM | LOG_TH_DPU_SYM

definition QUANTIZE_KERNEL_MAP :: "(string \<times> kernel) list" where
  "QUANTIZE_KERNEL_MAP =
     [(''MIN_MAX_PY3_SYM'', MIN_MAX_PY3_SYM),
      (''MIN_MAX_PY3_SYM_PERC'', MIN_MAX_PY3_SYM_PERC),
      (''MIN_MAX_PY3_ASYM'', MIN_MAX_PY3_ASYM),
      (''MIN_MAX_PY3_ASYM_PERC'', MIN_MAX_PY3_ASYM_PERC),
      (''QUANTIZE_POS_PY3_SYM'', QUANTIZE_POS_PY3_SYM),
      (''QUANTIZE_POS_PY3_ASYM'', QUANTIZE_POS_PY3_ASYM),
      (''QUANTIZE_POS_PY3_SYM_PERC'', QUANTIZE_POS_PY3_SYM_PERC),
      (''QUANTIZE_POS_PY3_ASYM_PERC'', QUANTIZE_POS_PY3_ASYM_PERC),
      (''QUANTIZE_POS_DPU_SYM'', QUANTIZE_POS_DPU_SYM),
      (''QUANTIZE_POS_DPU_ASYM'', QUANTIZE_POS_DPU_ASYM),
      (''LOG_TH_PY3_SYM'', LOG_TH_PY3_SYM),
      (''LOG_TH_DPU_SYM'', LOG_TH_DPU_SYM)]"

definition get_quantize_kernel :: "string \<Rightarrow> int \<Rightarrow> bool \<Rightarrow> bool \<Rightarrow> error + kernel" where
  "get_quantize_kernel kernel_type round_mode symmetry per_channel =
     (let key = kernel_type
      in case (if round_mode = 0 then Inr (key @ ''_PY3'')
               else if round_mode = 1 then Inr (key @ ''_DPU'')
               else if round_mode = 2 then Inr (key @ ''_STD'')
               else logger_error (InvalidRoundMode round_mode)) of
           Inl e \<Rightarrow> Inl e
         | Inr key \<Rightarrow>
             let key = (if symmetry then key @ ''_SYM'' else key @ ''_ASYM'');
                 key = (if per_channel then key @ ''_PERC'' else key)
             in case map_of QUANTIZE_KERNEL_MAP key of
                  None \<Rightarrow> logger_error (InvalidQuantizeKernel key)
                | Some k \<Rightarrow> Inr k)"

section \<open>Position and threshold search\<close>

text \<open>
  The non-overflow searches are elementwise in \<open>f_min\<close> and \<open>f_max\<close> and read neither the
  inputs nor \<^verbatim>\<open>per_channel\<close> and \<^verbatim>\<open>reduce_dims\<close>, so these parameters are left out. They
  are float32 computations: every difference, product and quotient is rounded by \<open>fl32\<close>, and
  \<^verbatim>\<open>tf.math.log\<close> is the float32 value nearest to the natural logarithm.
\<close>

definition tf_log :: "real \<Rightarrow> real" where
  \<comment> \<open>\<^verbatim>\<open>tf.math.log\<close> on a float32 tensor\<close>
  "tf_log x = fl32 (ln x)"

definition get_quantize_pos_non_overflow_sym :: "real \<Rightarrow> real \<Rightarrow> real \<Rightarrow> real \<Rightarrow> real" where
  "get_quantize_pos_non_overflow_sym f_min f_max q_min q_max =
     (let min_scale_inv = fl32 (f_min / q_min);
          max_scale_inv = fl32 (f_max / q_max);
          float_scale_inv = max min_scale_inv max_scale_inv;
          float_scale_inv = max float_scale_inv float_info_epsilon;
          quantize_pos = fl32 (- tf_log float_scale_inv / tf_log 2)
      in of_int \<lfloor>quantize_pos\<rfloor>)"

definition get_quantize_pos_non_overflow_asym :: "real \<Rightarrow> real \<Rightarrow> real \<Rightarrow> real \<Rightarrow> real" where
  "get_quantize_pos_non_overflow_asym f_min f_max q_min q_max =
     (let float_scale_inv = fl32 (fl32 (f_max - f_min) / fl32 (q_max - q_min));
          float_scale_inv = max float_scale_inv float_info_epsilon;
          quantize_pos = fl32 (- tf_log float_scale_inv / tf_log 2)
      in of_int \<lfloor>quantize_pos\<rfloor>)"

definition min_diffs ::
  "(real \<Rightarrow> real \<Rightarrow> real \<Rightarrow> real \<Rightarrow> real) \<Rightarrow> tensor \<Rightarrow> stat \<Rightarrow> real \<Rightarrow> real \<Rightarrow> real list" where
  \<comment> \<open>the list \<open>diffs\<close> that the loop \<^verbatim>\<open>for i in range(5)\<close> of the two min-diffs searches builds,
      for the quantize function \<open>quantize\<close>\<close>
  "min_diffs quantize inputs non_overflow_pos q_min q_max =
     map (\<lambda>i.
            let scale = map (\<lambda>p. 2 powr (p + real i)) non_overflow_pos;
                quantized = bc (\<lambda>x s. quantize x s q_min q_max) inputs scale;
                dequantized = bc (\<lambda>q s. sym_dequantize q s q_min q_max) quantized scale;
                diff = ew2 (\<lambda>x d. (x - d) ^ 2) inputs dequantized
            in reduce_sum (concat diff))
         [0..<5]"

definition get_quantize_pos_min_diffs_py3_sym ::
  "tensor \<Rightarrow> stat \<Rightarrow> stat \<Rightarrow> real \<Rightarrow> real \<Rightarrow> stat" where
  "get_quantize_pos_min_diffs_py3_sym inputs f_min f_max q_min q_max =
     (let non_overflow_pos =
            map2 (\<lambda>mn mx. get_quantize_pos_non_overflow_sym mn mx q_min q_max) f_min f_max;
          diffs = min_diffs py3_sym_quantize inputs non_overflow_pos q_min q_max;
          pos_offset = tf_argmin diffs
      in map (\<lambda>p. p + real pos_offset) non_overflow_pos)"

definition get_quantize_pos_min_diffs_dpu_sym ::
  "tensor \<Rightarrow> stat \<Rightarrow> stat \<Rightarrow> real \<Rightarrow> real \<Rightarrow> stat" where
  "get_quantize_pos_min_diffs_dpu_sym inputs f_min f_max q_min q_max =
     (let non_overflow_pos =
            map2 (\<lambda>mn mx. get_quantize_pos_non_overflow_sym mn mx q_min q_max) f_min f_max;
          diffs = min_diffs dpu_sym_quantize inputs non_overflow_pos q_min q_max;
          pos_offset = tf_argmin diffs
      in map (\<lambda>p. p + real pos_offset) non_overflow_pos)"

definition get_quantize_pos ::
  "tensor \<Rightarrow> stat \<Rightarrow> stat \<Rightarrow> nat \<Rightarrow> int \<Rightarrow> int \<Rightarrow> bool \<Rightarrow> error + stat" where
  "get_quantize_pos inputs f_min f_max bit_width method round_mode symmetry =
     (let (q_min, q_max) = q_range bit_width
      in if \<not> symmetry then
           Inr (map2 (\<lambda>mn mx. get_quantize_pos_non_overflow_asym mn mx q_min q_max) f_min f_max)
         else if method = 0 then
           Inr (map2 (\<lambda>mn mx. get_quantize_pos_non_overflow_sym mn mx q_min q_max) f_min f_max)
         else if method = 1 \<and> round_mode = 0 then
           Inr (get_quantize_pos_min_diffs_py3_sym inputs f_min f_max q_min q_max)
         else if method = 1 \<and> round_mode = 1 then
           Inr (get_quantize_pos_min_diffs_dpu_sym inputs f_min f_max q_min q_max)
         else logger_error NotImplementedError)"

definition get_log_th_non_overflow :: "real \<Rightarrow> real \<Rightarrow> real \<Rightarrow> real \<Rightarrow> real" where
  "get_log_th_non_overflow f_min f_max q_min q_max =
     (let f_min_abs = \<bar>f_min\<bar>;
          f_max_adj = fl32 (f_max * fl32 (- q_min / q_max));
          th = max f_min_abs f_max_adj;
          th = max th (fl32 (1 / 10 ^ 9))
      in fl32 (tf_log th / tf_log 2))"

definition get_log_th :: "stat \<Rightarrow> stat \<Rightarrow> nat \<Rightarrow> int \<Rightarrow> error + stat" where
  "get_log_th f_min f_max bit_width method =
     (let (q_min, q_max) = q_range bit_width
      in if method = 0 then
           Inr (map2 (\<lambda>mn mx. get_log_th_non_overflow mn mx q_min q_max) f_min f_max)
         else if method = 1 then logger_error NotImplementedError
         else logger_error NotImplementedError)"

section \<open>The quantize operations and their persistent state\<close>

text \<open>
  The variables that an operation reads and assigns are passed in and returned: the source
  mutates them in place. \<^verbatim>\<open>tf_compat.assign\<close> stores the value and yields it. The operations
  return the forward value of the kernel they select; \<open>mode\<close> is the source's string.
  \<^verbatim>\<open>channel_axis\<close> is fixed by the representation of the tensor. A call that fails ends with
  the error alone: the variables it has assigned before failing are not reported.
\<close>

record variables =
  quant_pos_var :: stat
  log_th_var :: stat
  min_var :: stat
  max_var :: stat

fun call_min_max :: "kernel \<Rightarrow> tensor \<Rightarrow> stat \<Rightarrow> stat \<Rightarrow> nat \<Rightarrow> error + tensor" where
  "call_min_max MIN_MAX_PY3_SYM inputs f_min f_max bit_width =
     Inr (fst (fake_quantize_with_min_max_py3_sym inputs f_min f_max bit_width))"
| "call_min_max MIN_MAX_PY3_SYM_PERC inputs f_min f_max bit_width =
     Inr (fst (fake_quantize_with_min_max_py3_sym_perc inputs f_min f_max bit_width))"
| "call_min_max MIN_MAX_PY3_ASYM inputs f_min f_max bit_width =
     Inr (fst (fake_quantize_with_min_max_py3_asym inputs f_min f_max bit_width))"
| "call_min_max MIN_MAX_PY3_ASYM_PERC inputs f_min f_max bit_width =
     Inr (fst (fake_quantize_with_min_max_py3_asym_perc inputs f_min f_max bit_width))"
| "call_min_max _ inputs f_min f_max bit_width = Inl TypeError"

fun call_quantize_pos_sym :: "kernel \<Rightarrow> tensor \<Rightarrow> stat \<Rightarrow> nat \<Rightarrow> error + tensor" where
  "call_quantize_pos_sym QUANTIZE_POS_PY3_SYM inputs quantize_pos bit_width =
     Inr (fst (fake_quantize_with_quantize_pos_py3_sym inputs quantize_pos bit_width))"
| "call_quantize_pos_sym QUANTIZE_POS_PY3_SYM_PERC inputs quantize_pos bit_width =
     Inr (fst (fake_quantize_with_quantize_pos_py3_sym_perc inputs quantize_pos bit_width))"
| "call_quantize_pos_sym QUANTIZE_POS_DPU_SYM inputs quantize_pos bit_width =
     Inr (fst (fake_quantize_with_quantize_pos_dpu_sym inputs quantize_pos bit_width))"
| "call_quantize_pos_sym _ inputs quantize_pos bit_width = Inl TypeError"

fun call_quantize_pos_asym ::
  "kernel \<Rightarrow> tensor \<Rightarrow> stat \<Rightarrow> stat \<Rightarrow> stat \<Rightarrow> nat \<Rightarrow> error + tensor" where
  "call_quantize_pos_asym QUANTIZE_POS_PY3_ASYM inputs quantize_pos f_min f_max bit_width =
     Inr (fst (fake_quantize_with_quantize_pos_py3_asym inputs quantize_pos f_min f_max bit_width))"
| "call_quantize_pos_asym QUANTIZE_POS_PY3_ASYM_PERC inputs quantize_pos f_min f_max bit_width =
     Inr (fst (fake_quantize_with_quantize_pos_py3_asym_perc inputs quantize_pos f_min f_max bit_width))"
| "call_quantize_pos_asym QUANTIZE_POS_DPU_ASYM inputs quantize_pos f_min f_max bit_width =
     Inr (fst (fake_quantize_with_quantize_pos_dpu_asym inputs quantize_pos f_min f_max bit_width))"
| "call_quantize_pos_asym _ inputs quantize_pos f_min f_max bit_width = Inl TypeError"

fun call_log_th :: "kernel \<Rightarrow> tensor \<Rightarrow> stat \<Rightarrow> nat \<Rightarrow> error + tensor" where
  "call_log_th LOG_TH_PY3_SYM inputs log_th bit_width =
     Inr (fst (fake_quantize_with_log_th_py3_sym inputs log_th bit_width))"
| "call_log_th LOG_TH_DPU_SYM inputs log_th bit_width =
     Inr (fst (fake_quantize_with_log_th_dpu_sym inputs log_th bit_width))"
| "call_log_th _ inputs log_th bit_width = Inl TypeError"

definition with_state :: "error + tensor \<Rightarrow> 's \<Rightarrow> error + tensor \<times> 's" where
  \<comment> \<open>the value an operation returns, paired with the variables it leaves behind\<close>
  "with_state r s = (case r of Inl e \<Rightarrow> Inl e | Inr out \<Rightarrow> Inr (out, s))"

definition LastValueMinMaxQuantize ::
  "tensor \<Rightarrow> variables \<Rightarrow> nat \<Rightarrow> int \<Rightarrow> string \<Rightarrow> bool \<Rightarrow> bool \<Rightarrow> bool \<Rightarrow>
   error + tensor \<times> variables" where
  "LastValueMinMaxQuantize inputs vars bit_width round_mode mode is_training symmetry per_channel =
     (case get_quantize_kernel ''MIN_MAX'' round_mode symmetry per_channel of
        Inl e \<Rightarrow> Inl e
      | Inr quantize_kernel \<Rightarrow>
          if mode = ''ANALYSE'' then
            let (batch_min, batch_max) = get_min_max inputs bit_width symmetry per_channel
            in Inr (inputs, vars\<lparr>min_var := batch_min, max_var := batch_max\<rparr>)
          else if is_training \<or> mode = ''QCB'' then
            let (batch_min, batch_max) = get_min_max inputs bit_width symmetry per_channel;
                assign_min = batch_min;
                assign_max = batch_max
            in with_state (call_min_max quantize_kernel inputs assign_min assign_max bit_width)
                 (vars\<lparr>min_var := assign_min, max_var := assign_max\<rparr>)
          else
            with_state (call_min_max quantize_kernel inputs (min_var vars) (max_var vars) bit_width)
              vars)"

definition MovingAvgMinMaxQuantize ::
  "('v \<Rightarrow> stat) \<Rightarrow> ('v \<Rightarrow> stat \<Rightarrow> real \<Rightarrow> bool \<Rightarrow> 'v) \<Rightarrow>
   tensor \<Rightarrow> 'v \<times> 'v \<Rightarrow> nat \<Rightarrow> int \<Rightarrow> string \<Rightarrow> bool \<Rightarrow> bool \<Rightarrow> real \<Rightarrow>
   error + tensor \<times> 'v \<times> 'v" where
  \<comment> \<open>\<^verbatim>\<open>moving_averages.assign_moving_average\<close> belongs to TensorFlow: the operation takes it
      as the parameter \<open>assign_moving_average\<close> (variable, value, decay, zero_debias), with
      \<open>read\<close> for the value of a variable; the pair holds \<open>min_var\<close> and \<open>max_var\<close>\<close>
  "MovingAvgMinMaxQuantize read assign_moving_average inputs vars bit_width round_mode mode
       is_training per_channel ema_decay =
     (let symmetry = False;
          (min_var, max_var) = vars
      in case get_quantize_kernel ''MIN_MAX'' round_mode symmetry per_channel of
           Inl e \<Rightarrow> Inl e
         | Inr quantize_kernel \<Rightarrow>
             if mode = ''ANALYSE'' then
               let (batch_min, batch_max) = get_min_max inputs bit_width symmetry per_channel;
                   assign_min = assign_moving_average min_var batch_min ema_decay False;
                   assign_max = assign_moving_average max_var batch_max ema_decay False
               in Inr (inputs, assign_min, assign_max)
             else if is_training \<or> mode = ''QCB'' then
               let (batch_min, batch_max) = get_min_max inputs bit_width symmetry per_channel;
                   assign_min = assign_moving_average min_var batch_min ema_decay True;
                   assign_max = assign_moving_average max_var batch_max ema_decay True
               in with_state
                    (call_min_max quantize_kernel inputs (read assign_min) (read assign_max) bit_width)
                    (assign_min, assign_max)
             else
               with_state
                 (call_min_max quantize_kernel inputs (read min_var) (read max_var) bit_width)
                 (min_var, max_var))"

definition LastValueQuantPosQuantize ::
  "tensor \<Rightarrow> variables \<Rightarrow> nat \<Rightarrow> int \<Rightarrow> int \<Rightarrow> string \<Rightarrow> bool \<Rightarrow> bool \<Rightarrow> bool \<Rightarrow>
   error + tensor \<times> variables" where
  "LastValueQuantPosQuantize inputs vars bit_width method round_mode mode is_training symmetry
       per_channel =
     (case get_quantize_kernel ''QUANTIZE_POS'' round_mode symmetry per_channel of
        Inl e \<Rightarrow> Inl e
      | Inr quantize_kernel \<Rightarrow>
          if mode = ''ANALYSE'' then
            let (batch_min, batch_max) = get_min_max inputs bit_width symmetry per_channel
            in Inr (inputs, vars\<lparr>min_var := batch_min, max_var := batch_max\<rparr>)
          else if is_training \<or> mode = ''QCB'' then
            let (batch_min, batch_max) = get_min_max inputs bit_width symmetry per_channel;
                assign_min = batch_min;
                assign_max = batch_max
            in case get_quantize_pos inputs assign_min assign_max bit_width method round_mode
                      symmetry of
                 Inl e \<Rightarrow> Inl e
               | Inr batch_quantize_pos \<Rightarrow>
                   let assign_quantize_pos = batch_quantize_pos;
                       vars = vars\<lparr>min_var := assign_min, max_var := assign_max,
                                   quant_pos_var := assign_quantize_pos\<rparr>
                   in if symmetry then
                        with_state
                          (call_quantize_pos_sym quantize_kernel inputs assign_quantize_pos bit_width)
                          vars
                      else
                        with_state
                          (call_quantize_pos_asym quantize_kernel inputs assign_quantize_pos
                             assign_min assign_max bit_width)
                          vars
          else if symmetry then
            with_state
              (call_quantize_pos_sym quantize_kernel inputs (quant_pos_var vars) bit_width) vars
          else
            with_state
              (call_quantize_pos_asym quantize_kernel inputs (quant_pos_var vars) (min_var vars)
                 (max_var vars) bit_width)
              vars)"

definition LastValueLogThQuantize ::
  "tensor \<Rightarrow> variables \<Rightarrow> nat \<Rightarrow> int \<Rightarrow> int \<Rightarrow> string \<Rightarrow> bool \<Rightarrow> error + tensor \<times> variables" where
  "LastValueLogThQuantize inputs vars bit_width method round_mode mode is_training =
     (case get_quantize_kernel ''LOG_TH'' round_mode True False of
        Inl e \<Rightarrow> Inl e
      | Inr quantize_kernel \<Rightarrow>
          if mode = ''ANALYSE'' then
            let (batch_min, batch_max) = get_min_max inputs bit_width True False
            in Inr (inputs, vars\<lparr>min_var := batch_min, max_var := batch_max\<rparr>)
          else if is_training \<or> mode = ''QCB'' then
            let (batch_min, batch_max) = get_min_max inputs bit_width True False;
                assign_min = batch_min;
                assign_max = batch_max;
                vars = vars\<lparr>min_var := assign_min, max_var := assign_max\<rparr>
            in if mode = ''QCB'' then
                 case get_log_th assign_min assign_max bit_width method of
                   Inl e \<Rightarrow> Inl e
                 | Inr batch_log_th \<Rightarrow>
                     let assign_log_th = batch_log_th
                     in with_state (call_log_th quantize_kernel inputs assign_log_th bit_width)
                          (vars\<lparr>log_th_var := assign_log_th\<rparr>)
               else
                 with_state (call_log_th quantize_kernel inputs (log_th_var vars) bit_width) vars
          else
            with_state (call_log_th quantize_kernel inputs (log_th_var vars) bit_width) vars)"

record ema_var =
  ema_value :: stat
  biased :: stat
  local_step :: nat

definition tf_assign_moving_average :: "ema_var \<Rightarrow> stat \<Rightarrow> real \<Rightarrow> bool \<Rightarrow> ema_var" where
  \<comment> \<open>\<^verbatim>\<open>moving_averages.assign_moving_average\<close> of TensorFlow, on a variable together with the two
      slot variables of its bias correction, both zero when fresh. Without \<open>zero_debias\<close>:
      \<^verbatim>\<open>variable -= (1 - decay) * (variable - value)\<close>. With it:
      \<^verbatim>\<open>biased -= (1 - decay) * (biased - value)\<close>, \<^verbatim>\<open>local_step += 1\<close> and
      \<^verbatim>\<open>variable = biased / (1 - decay ** local_step)\<close>.\<close>
  "tf_assign_moving_average variable v decay zero_debias =
     (if zero_debias then
        let update_biased = map2 (\<lambda>b x. b - (b - x) * (1 - decay)) (biased variable) v;
            update_local_step = local_step variable + 1;
            bias_factor = 1 - decay ^ update_local_step
        in \<lparr>ema_value = map (\<lambda>b. b / bias_factor) update_biased,
            biased = update_biased, local_step = update_local_step\<rparr>
      else
        variable\<lparr>ema_value := map2 (\<lambda>var x. var - (1 - decay) * (var - x)) (ema_value variable) v\<rparr>)"

section \<open>Reference definitions\<close>


section \<open>Rounding, clipping and the zero point\<close>

lemma tf_round_near: "\<bar>tf_round x - x\<bar> \<le> 1/2"
  unfolding tf_round_def Let_def by (auto simp: abs_if) linarith+

lemma tf_round_Ints: "tf_round x \<in> \<int>"
  unfolding tf_round_def Let_def by auto



lemma fl32_zero: "fl32 0 = 0"
  by (simp add: fl32_def)

lemma fl32_error: "\<bar>fl32 x - x\<bar> \<le> \<bar>x\<bar> / 2 ^ 24"
proof (cases "x = 0")
  case True
  then show ?thesis by (simp add: fl32_def)
next
  case False
  define e where "e = \<lfloor>log 2 \<bar>x\<bar>\<rfloor>"
  define ulp :: real where "ulp = 2 powr (of_int e - 23)"
  have ulp: "0 < ulp" unfolding ulp_def by simp
  have fl: "fl32 x = tf_round (x / ulp) * ulp"
    using False by (simp add: fl32_def Let_def e_def ulp_def)
  have "of_int e \<le> log 2 \<bar>x\<bar>" unfolding e_def by (rule of_int_floor_le)
  then have "2 powr of_int e \<le> 2 powr log 2 \<bar>x\<bar>" by simp
  then have pe: "2 powr of_int e \<le> \<bar>x\<bar>" using False by simp
  have "\<bar>tf_round (x / ulp) - x / ulp\<bar> \<le> 1 / 2" by (rule tf_round_near)
  then have "\<bar>tf_round (x / ulp) - x / ulp\<bar> * ulp \<le> 1 / 2 * ulp"
    using ulp by (intro mult_right_mono) simp_all
  moreover have "\<bar>tf_round (x / ulp) - x / ulp\<bar> * ulp = \<bar>fl32 x - x\<bar>"
  proof -
    have "(tf_round (x / ulp) - x / ulp) * ulp = fl32 x - x"
      using ulp by (simp add: fl left_diff_distrib)
    then have "\<bar>fl32 x - x\<bar> = \<bar>(tf_round (x / ulp) - x / ulp) * ulp\<bar>" by simp
    also have "\<dots> = \<bar>tf_round (x / ulp) - x / ulp\<bar> * ulp"
      using ulp by (simp add: abs_mult)
    finally show ?thesis by simp
  qed
  ultimately have "\<bar>fl32 x - x\<bar> \<le> ulp / 2" by simp
  also have "ulp / 2 = 2 powr of_int e / 2 ^ 24"
  proof -
    have "ulp = 2 powr of_int e * 2 powr (- 23)"
      unfolding ulp_def by (simp add: powr_diff powr_minus field_simps)
    then show ?thesis by (simp add: powr_minus field_simps)
  qed
  also have "\<dots> \<le> \<bar>x\<bar> / 2 ^ 24" using pe by (simp add: divide_right_mono)
  finally show ?thesis .
qed

lemma fl32_eval:
  assumes "2 powr of_int e \<le> \<bar>x\<bar>" and "\<bar>x\<bar> < 2 powr (of_int e + 1)"
  shows "fl32 x = tf_round (x / 2 powr (of_int e - 23)) * 2 powr (of_int e - 23)"
proof -
  have "0 < 2 powr (of_int e :: real)" by simp
  with assms(1) have pos: "0 < \<bar>x\<bar>" by linarith
  then have nz: "x \<noteq> 0" by auto
  have "of_int e \<le> log 2 \<bar>x\<bar>" using assms(1) pos by (simp add: le_log_iff)
  moreover have "log 2 \<bar>x\<bar> < of_int e + 1" using assms(2) pos by (simp add: log_less_iff)
  ultimately have "\<lfloor>log 2 \<bar>x\<bar>\<rfloor> = e" by (intro floor_unique) simp_all
  then show ?thesis using nz by (simp add: fl32_def Let_def)
qed

text \<open>The float32 values of the numbers that the examples below meet.\<close>

lemma fl32_quarter: "fl32 (1 / 4) = 1 / 4"
  by (subst fl32_eval[where e = "- 2"]) (simp_all add: tf_round_def Let_def powr_neg_numeral)

lemma fl32_half: "fl32 (1 / 2) = 1 / 2"
  by (subst fl32_eval[where e = "- 1"]) (simp_all add: tf_round_def Let_def powr_neg_numeral)

lemma fl32_three_quarters: "fl32 (3 / 4) = 3 / 4"
  by (subst fl32_eval[where e = "- 1"]) (simp_all add: tf_round_def Let_def powr_neg_numeral)

lemma fl32_minus_one: "fl32 (- 1) = - 1"
  by (subst fl32_eval[where e = 0]) (simp_all add: tf_round_def Let_def powr_neg_numeral)

lemma fl32_one: "fl32 (1) = 1"
  by (subst fl32_eval[where e = 0]) (simp_all add: tf_round_def Let_def powr_neg_numeral)

lemma fl32_three_halves: "fl32 (3 / 2) = 3 / 2"
  by (subst fl32_eval[where e = 0]) (simp_all add: tf_round_def Let_def powr_neg_numeral)

lemma fl32_two: "fl32 (2) = 2"
  by (subst fl32_eval[where e = 1]) (simp_all add: tf_round_def Let_def powr_neg_numeral)

lemma fl32_minus_two: "fl32 (- 2) = - 2"
  by (subst fl32_eval[where e = 1]) (simp_all add: tf_round_def Let_def powr_neg_numeral)

lemma fl32_three: "fl32 (3) = 3"
  by (subst fl32_eval[where e = 1]) (simp_all add: tf_round_def Let_def powr_neg_numeral)

lemma fl32_five_halves: "fl32 (5 / 2) = 5 / 2"
  by (subst fl32_eval[where e = 1]) (simp_all add: tf_round_def Let_def powr_neg_numeral)

lemma fl32_four: "fl32 (4) = 4"
  by (subst fl32_eval[where e = 2]) (simp_all add: tf_round_def Let_def powr_neg_numeral)

lemma fl32_nine_halves: "fl32 (9 / 2) = 9 / 2"
  by (subst fl32_eval[where e = 2]) (simp_all add: tf_round_def Let_def powr_neg_numeral)

lemma fl32_64: "fl32 (64) = 64"
  by (subst fl32_eval[where e = 6]) (simp_all add: tf_round_def Let_def powr_neg_numeral)

lemma fl32_127: "fl32 (127) = 127"
  by (subst fl32_eval[where e = 6]) (simp_all add: tf_round_def Let_def powr_neg_numeral)

lemma fl32_255_halves: "fl32 (255 / 2) = 255 / 2"
  by (subst fl32_eval[where e = 6]) (simp_all add: tf_round_def Let_def powr_neg_numeral)

lemma fl32_128: "fl32 (128) = 128"
  by (subst fl32_eval[where e = 7]) (simp_all add: tf_round_def Let_def powr_neg_numeral)

lemma fl32_minus_128: "fl32 (- 128) = - 128"
  by (subst fl32_eval[where e = 7]) (simp_all add: tf_round_def Let_def powr_neg_numeral)

lemma fl32_255: "fl32 (255) = 255"
  by (subst fl32_eval[where e = 7]) (simp_all add: tf_round_def Let_def powr_neg_numeral)

lemma fl32_eight: "fl32 (8) = 8"
  by (subst fl32_eval[where e = 3]) (simp_all add: tf_round_def Let_def powr_neg_numeral)

lemma fl32_17_halves: "fl32 (17 / 2) = 17 / 2"
  by (subst fl32_eval[where e = 3]) (simp_all add: tf_round_def Let_def powr_neg_numeral)

lemma fl32_sixteen: "fl32 (16) = 16"
  by (subst fl32_eval[where e = 4]) (simp_all add: tf_round_def Let_def powr_neg_numeral)

lemma fl32_33_halves: "fl32 (33 / 2) = 33 / 2"
  by (subst fl32_eval[where e = 4]) (simp_all add: tf_round_def Let_def powr_neg_numeral)

lemmas fl32_values =
  fl32_zero fl32_quarter fl32_half fl32_three_quarters fl32_minus_one fl32_one fl32_three_halves
  fl32_two fl32_minus_two fl32_three fl32_five_halves fl32_four fl32_nine_halves
  fl32_64 fl32_127 fl32_255_halves fl32_128 fl32_minus_128 fl32_255
  fl32_eight fl32_17_halves fl32_sixteen fl32_33_halves

lemma floor_fl32_14_5: "\<lfloor>fl32 (14 / 5)\<rfloor> = 2"
  by (subst fl32_eval[where e = 1]) (simp_all add: tf_round_def Let_def powr_neg_numeral)

lemma floor_fl32_minus_21_10: "\<lfloor>fl32 (- (21 / 10))\<rfloor> = - 3"
  by (subst fl32_eval[where e = 1]) (simp_all add: tf_round_def Let_def powr_neg_numeral)


text \<open>
  C1: on the vector [2.3, 1.5, -1.5, 2.5, -2.5, -2.6] the three rounding functions, applied
  elementwise, give [2, 2, -2, 2, -2, -3] for \<open>py3_round\<close> (half to even),
  [2, 2, -1, 3, -2, -3] for \<open>dpu_round\<close> (half up) and [2, 2, -2, 3, -3, -3] for
  \<open>std_round\<close> (half away from zero).
\<close>

theorem rounding_parity:
  "map py3_round [2.3, 1.5, -1.5, 2.5, -2.5, -2.6] = [2, 2, -2, 2, -2, -3] \<and>
   map dpu_round [2.3, 1.5, -1.5, 2.5, -2.5, -2.6] = [2, 2, -1, 3, -2, -3] \<and>
   map std_round [2.3, 1.5, -1.5, 2.5, -2.5, -2.6] = [2, 2, -2, 3, -3, -3]"
  by (simp add: py3_round_def dpu_round_def std_round_def tf_round_def Let_def fl32_values
      floor_fl32_14_5 floor_fl32_minus_21_10)






lemma clip_by_value_range: "lo \<le> hi \<Longrightarrow> lo \<le> clip_by_value t lo hi \<and> clip_by_value t lo hi \<le> hi"
  by (auto simp: clip_by_value_def)

lemma clip_by_value_closer:
  assumes "lo \<le> y" "y \<le> hi" shows "\<bar>clip_by_value t lo hi - y\<bar> \<le> \<bar>t - y\<bar>"
  using assms by (auto simp: clip_by_value_def min_def max_def abs_if)

lemma round_trip:
  assumes s: "0 < s" and near: "\<bar>r - x * s\<bar> \<le> 1 / 2"
    and lo: "q_min / s \<le> x" and hi: "x \<le> q_max / s"
  shows "\<bar>clip_by_value r q_min q_max / s - x\<bar> \<le> 1 / (2 * s)"
proof -
  have xs: "q_min \<le> x * s" "x * s \<le> q_max"
    using s lo hi by (simp_all add: pos_divide_le_eq pos_le_divide_eq)
  have "\<bar>clip_by_value r q_min q_max - x * s\<bar> \<le> 1 / 2"
    using clip_by_value_closer[OF xs, of r] near by linarith
  then have "\<bar>clip_by_value r q_min q_max - x * s\<bar> / s \<le> (1 / 2) / s"
    using s by (intro divide_right_mono) simp_all
  moreover have "\<bar>clip_by_value r q_min q_max - x * s\<bar> / s = \<bar>clip_by_value r q_min q_max / s - x\<bar>"
  proof -
    have "clip_by_value r q_min q_max / s - x = (clip_by_value r q_min q_max - x * s) / s"
      using s by (simp add: diff_divide_distrib)
    then show ?thesis using s by (simp add: abs_divide del: abs_diff_le_iff)
  qed
  ultimately show ?thesis by simp
qed

lemma py3_round_fl32_near: "\<bar>py3_round (fl32 y) - y\<bar> \<le> 1 / 2 + \<bar>y\<bar> / 2 ^ 24"
  unfolding py3_round_def using tf_round_near[of "fl32 y"] fl32_error[of y] by linarith

lemma dpu_round_fl32_near:
  "\<bar>dpu_round (fl32 y) - y\<bar> \<le> 1 / 2 + (3 * \<bar>y\<bar> + 1 / 2) / 2 ^ 24"
proof -
  define z where "z = fl32 y"
  define t where "t = fl32 (z + 1 / 2)"
  define r :: real where "r = of_int \<lfloor>t\<rfloor>"
  have r: "dpu_round (fl32 y) = r" by (simp add: dpu_round_def r_def t_def z_def)
  have z: "\<bar>z - y\<bar> \<le> \<bar>y\<bar> / 2 ^ 24" unfolding z_def by (rule fl32_error)
  have "\<bar>y\<bar> / 2 ^ 24 \<le> \<bar>y\<bar>" by (simp add: field_simps)
  with z have "\<bar>z + 1 / 2\<bar> \<le> 2 * \<bar>y\<bar> + 1 / 2" by linarith
  then have zh: "\<bar>z + 1 / 2\<bar> / 2 ^ 24 \<le> (2 * \<bar>y\<bar> + 1 / 2) / 2 ^ 24"
    by (simp add: divide_right_mono)
  have "\<bar>t - (z + 1 / 2)\<bar> \<le> \<bar>z + 1 / 2\<bar> / 2 ^ 24" unfolding t_def by (rule fl32_error)
  with zh have t: "\<bar>t - (z + 1 / 2)\<bar> \<le> (2 * \<bar>y\<bar> + 1 / 2) / 2 ^ 24" by linarith
  have fl: "r \<le> t" "t - 1 < r" unfolding r_def by linarith+
  have "(2 * \<bar>y\<bar> + 1 / 2) / 2 ^ 24 + \<bar>y\<bar> / 2 ^ 24 = (3 * \<bar>y\<bar> + 1 / 2) / 2 ^ 24"
    by (simp add: field_simps)
  with z t fl have "\<bar>r - y\<bar> \<le> 1 / 2 + (3 * \<bar>y\<bar> + 1 / 2) / 2 ^ 24" by linarith
  then show ?thesis by (simp add: r)
qed

lemma round_trip_fl32:
  assumes s: "0 < s" and lo: "q_min \<le> x * s" and hi: "x * s \<le> q_max"
    and near: "\<bar>r - x * s\<bar> \<le> 1 / 2 + d"
  shows "\<bar>fl32 (clip_by_value r q_min q_max / s) - x\<bar>
           \<le> (1 / 2 + d + max \<bar>q_min\<bar> \<bar>q_max\<bar> / 2 ^ 24) / s"
proof -
  define q where "q = clip_by_value r q_min q_max"
  define Q where "Q = max \<bar>q_min\<bar> \<bar>q_max\<bar>"
  have qy: "\<bar>q - x * s\<bar> \<le> 1 / 2 + d"
    unfolding q_def using clip_by_value_closer[OF lo hi, of r] near by linarith
  have "q_min \<le> q \<and> q \<le> q_max"
    unfolding q_def using lo hi by (intro clip_by_value_range) linarith
  then have qQ: "\<bar>q\<bar> \<le> Q" unfolding Q_def by (auto simp: abs_if max_def)
  have "\<bar>fl32 (q / s) - q / s\<bar> \<le> \<bar>q / s\<bar> / 2 ^ 24" by (rule fl32_error)
  also have "\<bar>q / s\<bar> / 2 ^ 24 = (\<bar>q\<bar> / 2 ^ 24) / s" using s by (simp add: abs_divide)
  also have "\<dots> \<le> (Q / 2 ^ 24) / s"
    using qQ s by (intro divide_right_mono) simp_all
  finally have a: "\<bar>fl32 (q / s) - q / s\<bar> \<le> (Q / 2 ^ 24) / s" .
  have "q / s - x = (q - x * s) / s" using s by (simp add: diff_divide_distrib)
  then have "\<bar>q / s - x\<bar> = \<bar>q - x * s\<bar> / s" using s by (simp add: abs_divide)
  also have "\<dots> \<le> (1 / 2 + d) / s" using qy s by (intro divide_right_mono) simp_all
  finally have b: "\<bar>q / s - x\<bar> \<le> (1 / 2 + d) / s" .
  have "(Q / 2 ^ 24) / s + (1 / 2 + d) / s = (1 / 2 + d + Q / 2 ^ 24) / s"
    by (simp add: add_divide_distrib)
  with a b have "\<bar>fl32 (q / s) - x\<bar> \<le> (1 / 2 + d + Q / 2 ^ 24) / s" by linarith
  then show ?thesis by (simp add: q_def Q_def)
qed

lemma sym_round_trip_fl32:
  assumes s: "0 < s" and lo: "q_min \<le> x * s" and hi: "x * s \<le> q_max"
  shows "\<bar>sym_dequantize (py3_sym_quantize x s q_min q_max) s q_min q_max - x\<bar>
           \<le> (1 / 2 + (max \<bar>q_min\<bar> \<bar>q_max\<bar> + 1) / 2 ^ 22) / s"
    and "\<bar>sym_dequantize (dpu_sym_quantize x s q_min q_max) s q_min q_max - x\<bar>
           \<le> (1 / 2 + (max \<bar>q_min\<bar> \<bar>q_max\<bar> + 1) / 2 ^ 22) / s"
proof -
  define Q where "Q = max \<bar>q_min\<bar> \<bar>q_max\<bar>"
  have yQ: "\<bar>x * s\<bar> \<le> Q" unfolding Q_def using lo hi by (auto simp: abs_if max_def)
  have Q0: "0 \<le> Q" unfolding Q_def by simp
  have "\<bar>py3_round (fl32 (x * s)) - x * s\<bar> \<le> 1 / 2 + \<bar>x * s\<bar> / 2 ^ 24"
    by (rule py3_round_fl32_near)
  moreover have "\<bar>x * s\<bar> / 2 ^ 24 \<le> Q / 2 ^ 24" using yQ by (simp add: divide_right_mono)
  ultimately have "\<bar>py3_round (fl32 (x * s)) - x * s\<bar> \<le> 1 / 2 + Q / 2 ^ 24" by linarith
  from round_trip_fl32[OF s lo hi this]
  have p: "\<bar>fl32 (clip_by_value (py3_round (fl32 (x * s))) q_min q_max / s) - x\<bar>
             \<le> (1 / 2 + Q / 2 ^ 24 + Q / 2 ^ 24) / s" by (simp add: Q_def)
  have "\<bar>dpu_round (fl32 (x * s)) - x * s\<bar> \<le> 1 / 2 + (3 * \<bar>x * s\<bar> + 1 / 2) / 2 ^ 24"
    by (rule dpu_round_fl32_near)
  moreover have "(3 * \<bar>x * s\<bar> + 1 / 2) / 2 ^ 24 \<le> (3 * Q + 1 / 2) / 2 ^ 24"
    using yQ by (simp add: divide_right_mono)
  ultimately have "\<bar>dpu_round (fl32 (x * s)) - x * s\<bar> \<le> 1 / 2 + (3 * Q + 1 / 2) / 2 ^ 24"
    by linarith
  from round_trip_fl32[OF s lo hi this]
  have d: "\<bar>fl32 (clip_by_value (dpu_round (fl32 (x * s))) q_min q_max / s) - x\<bar>
             \<le> (1 / 2 + (3 * Q + 1 / 2) / 2 ^ 24 + Q / 2 ^ 24) / s" by (simp add: Q_def)
  have b1: "1 / 2 + Q / 2 ^ 24 + Q / 2 ^ 24 \<le> 1 / 2 + (Q + 1) / 2 ^ 22"
    using Q0 by (simp add: field_simps)
  have b2: "1 / 2 + (3 * Q + 1 / 2) / 2 ^ 24 + Q / 2 ^ 24 \<le> 1 / 2 + (Q + 1) / 2 ^ 22"
    using Q0 by (simp add: field_simps)
  have m1: "(1 / 2 + Q / 2 ^ 24 + Q / 2 ^ 24) / s \<le> (1 / 2 + (Q + 1) / 2 ^ 22) / s"
    using b1 s by (intro divide_right_mono) simp_all
  have m2: "(1 / 2 + (3 * Q + 1 / 2) / 2 ^ 24 + Q / 2 ^ 24) / s
              \<le> (1 / 2 + (Q + 1) / 2 ^ 22) / s"
    using b2 s by (intro divide_right_mono) simp_all
  show "\<bar>sym_dequantize (py3_sym_quantize x s q_min q_max) s q_min q_max - x\<bar>
           \<le> (1 / 2 + (max \<bar>q_min\<bar> \<bar>q_max\<bar> + 1) / 2 ^ 22) / s"
    using p m1 by (simp add: py3_sym_quantize_def sym_dequantize_def Q_def)
  show "\<bar>sym_dequantize (dpu_sym_quantize x s q_min q_max) s q_min q_max - x\<bar>
           \<le> (1 / 2 + (max \<bar>q_min\<bar> \<bar>q_max\<bar> + 1) / 2 ^ 22) / s"
    using d m2 by (simp add: dpu_sym_quantize_def sym_dequantize_def Q_def)
qed

lemma sym_round_trip_exact:
  assumes s: "0 < s" and lo: "q_min / s \<le> x" and hi: "x \<le> q_max / s"
    and e1: "fl32 (x * s) = x * s"
  shows "fl32 (py3_sym_quantize x s q_min q_max / s) = py3_sym_quantize x s q_min q_max / s
           \<Longrightarrow> \<bar>sym_dequantize (py3_sym_quantize x s q_min q_max) s q_min q_max - x\<bar>
                 \<le> 1 / (2 * s)"
    and "fl32 (x * s + 1 / 2) = x * s + 1 / 2
           \<Longrightarrow> fl32 (dpu_sym_quantize x s q_min q_max / s) = dpu_sym_quantize x s q_min q_max / s
           \<Longrightarrow> \<bar>sym_dequantize (dpu_sym_quantize x s q_min q_max) s q_min q_max - x\<bar>
                 \<le> 1 / (2 * s)"
proof -
  assume e2: "fl32 (py3_sym_quantize x s q_min q_max / s) = py3_sym_quantize x s q_min q_max / s"
  have "\<bar>py3_round (x * s) - x * s\<bar> \<le> 1 / 2"
    using tf_round_near[of "x * s"] by (simp add: py3_round_def)
  from round_trip[OF s this lo hi] e2
  show "\<bar>sym_dequantize (py3_sym_quantize x s q_min q_max) s q_min q_max - x\<bar> \<le> 1 / (2 * s)"
    by (simp add: py3_sym_quantize_def sym_dequantize_def e1)
next
  assume e3: "fl32 (x * s + 1 / 2) = x * s + 1 / 2"
    and e4: "fl32 (dpu_sym_quantize x s q_min q_max / s) = dpu_sym_quantize x s q_min q_max / s"
  have "\<bar>of_int \<lfloor>x * s + 1 / 2\<rfloor> - x * s\<bar> \<le> 1 / 2" by linarith
  then have "\<bar>dpu_round (x * s) - x * s\<bar> \<le> 1 / 2" by (simp add: dpu_round_def e3)
  from round_trip[OF s this lo hi] e4
  show "\<bar>sym_dequantize (dpu_sym_quantize x s q_min q_max) s q_min q_max - x\<bar> \<le> 1 / (2 * s)"
    by (simp add: dpu_sym_quantize_def sym_dequantize_def e1)
qed

text \<open>
  The claim C7 as stated bounds the round trip by \<open>1 / (2 s)\<close>. Two float32 inputs within
  \<open>[q_min / s, q_max / s]\<close> for the bounds -128 and 127 exceed it. With the scale 1 the
  half-up kernel takes \<open>x = 16777215 / 2 ^ 25\<close>, just below 1/2, to 1: the sum \<open>x + 0.5\<close> rounds
  to 1 in float32. With the scale 3 the half-to-even kernel takes \<open>x = 11184811 / 2 ^ 26\<close>,
  just above 1/6, to 0: the product \<open>3 x\<close> rounds to the tie 1/2.
\<close>

theorem sym_round_trip_float32_counterexample:
  "(- 128::real) / 1 \<le> 16777215 / 33554432 \<and> (16777215 / 33554432::real) \<le> 127 / 1 \<and>
   dpu_sym_quantize (16777215 / 33554432) 1 (- 128) 127 = 1 \<and>
   sym_dequantize (dpu_sym_quantize (16777215 / 33554432) 1 (- 128) 127) 1 (- 128) 127 = 1 \<and>
   \<not> \<bar>sym_dequantize (dpu_sym_quantize (16777215 / 33554432) 1 (- 128) 127) 1 (- 128) 127
        - 16777215 / 33554432\<bar> \<le> 1 / (2 * 1) \<and>
   (- 128::real) / 3 \<le> 11184811 / 67108864 \<and> (11184811 / 67108864::real) \<le> 127 / 3 \<and>
   py3_sym_quantize (11184811 / 67108864) 3 (- 128) 127 = 0 \<and>
   sym_dequantize (py3_sym_quantize (11184811 / 67108864) 3 (- 128) 127) 3 (- 128) 127 = 0 \<and>
   \<not> \<bar>sym_dequantize (py3_sym_quantize (11184811 / 67108864) 3 (- 128) 127) 3 (- 128) 127
        - 11184811 / 67108864\<bar> \<le> 1 / (2 * 3)"
proof -
  have a: "fl32 (16777215 / 33554432) = 16777215 / 33554432"
    by (subst fl32_eval[where e = "- 2"]) (simp_all add: tf_round_def Let_def powr_neg_numeral)
  have b: "fl32 (33554431 / 33554432) = 1"
    by (subst fl32_eval[where e = "- 1"]) (simp_all add: tf_round_def Let_def powr_neg_numeral)
  have c: "fl32 (33554433 / 67108864) = 1 / 2"
    by (subst fl32_eval[where e = "- 1"]) (simp_all add: tf_round_def Let_def powr_neg_numeral)
  have d: "dpu_sym_quantize (16777215 / 33554432) 1 (- 128) 127 = 1"
    by (simp add: dpu_sym_quantize_def dpu_round_def clip_by_value_def a b)
  have p: "py3_sym_quantize (11184811 / 67108864) 3 (- 128) 127 = 0"
    by (simp add: py3_sym_quantize_def py3_round_def tf_round_def clip_by_value_def c)
  show ?thesis
    unfolding d p by (simp add: sym_dequantize_def fl32_values)
qed

text \<open>
  C7, as amended: for the symmetric quantize kernels with a scale \<open>s > 0\<close> and bounds
  \<open>q_min \<le> q_max\<close>, in float32 arithmetic without overflow or underflow, an input \<open>x\<close> within
  \<open>[q_min / s, q_max / s]\<close> comes back from quantize and dequantize within
  \<open>(1 / 2 + (max |q_min| |q_max| + 1) / 2 ^ 22) / s\<close> of itself: the rounding bound \<open>1 / (2 s)\<close>
  widened by the float32 rounding of the product, of the sum in the half-up rounding and of
  the quotient. It comes back within \<open>1 / (2 s)\<close> itself whenever these float32 operations
  are exact. For every input the quantized value lies within \<open>[q_min, q_max]\<close>.
\<close>

theorem sym_round_trip_bound:
  assumes "0 < s" and "q_min \<le> q_max"
  shows "(q_min / s \<le> x \<and> x \<le> q_max / s \<longrightarrow>
            \<bar>sym_dequantize (py3_sym_quantize x s q_min q_max) s q_min q_max - x\<bar>
              \<le> (1 / 2 + (max \<bar>q_min\<bar> \<bar>q_max\<bar> + 1) / 2 ^ 22) / s \<and>
            \<bar>sym_dequantize (dpu_sym_quantize x s q_min q_max) s q_min q_max - x\<bar>
              \<le> (1 / 2 + (max \<bar>q_min\<bar> \<bar>q_max\<bar> + 1) / 2 ^ 22) / s) \<and>
         (q_min / s \<le> x \<and> x \<le> q_max / s \<and> fl32 (x * s) = x * s \<and>
          fl32 (py3_sym_quantize x s q_min q_max / s) = py3_sym_quantize x s q_min q_max / s \<longrightarrow>
            \<bar>sym_dequantize (py3_sym_quantize x s q_min q_max) s q_min q_max - x\<bar>
              \<le> 1 / (2 * s)) \<and>
         (q_min / s \<le> x \<and> x \<le> q_max / s \<and> fl32 (x * s) = x * s \<and>
          fl32 (x * s + 1 / 2) = x * s + 1 / 2 \<and>
          fl32 (dpu_sym_quantize x s q_min q_max / s) = dpu_sym_quantize x s q_min q_max / s \<longrightarrow>
            \<bar>sym_dequantize (dpu_sym_quantize x s q_min q_max) s q_min q_max - x\<bar>
              \<le> 1 / (2 * s)) \<and>
         q_min \<le> py3_sym_quantize x s q_min q_max \<and> py3_sym_quantize x s q_min q_max \<le> q_max \<and>
         q_min \<le> dpu_sym_quantize x s q_min q_max \<and> dpu_sym_quantize x s q_min q_max \<le> q_max"
proof (intro conjI impI)
  assume r: "q_min / s \<le> x \<and> x \<le> q_max / s"
  then have xs: "q_min \<le> x * s" "x * s \<le> q_max"
    using assms(1) by (simp_all add: pos_divide_le_eq pos_le_divide_eq)
  show "\<bar>sym_dequantize (py3_sym_quantize x s q_min q_max) s q_min q_max - x\<bar>
          \<le> (1 / 2 + (max \<bar>q_min\<bar> \<bar>q_max\<bar> + 1) / 2 ^ 22) / s"
    by (rule sym_round_trip_fl32(1)[OF assms(1) xs])
  show "\<bar>sym_dequantize (dpu_sym_quantize x s q_min q_max) s q_min q_max - x\<bar>
          \<le> (1 / 2 + (max \<bar>q_min\<bar> \<bar>q_max\<bar> + 1) / 2 ^ 22) / s"
    by (rule sym_round_trip_fl32(2)[OF assms(1) xs])
next
  assume "q_min / s \<le> x \<and> x \<le> q_max / s \<and> fl32 (x * s) = x * s \<and>
          fl32 (py3_sym_quantize x s q_min q_max / s) = py3_sym_quantize x s q_min q_max / s"
  then show "\<bar>sym_dequantize (py3_sym_quantize x s q_min q_max) s q_min q_max - x\<bar>
               \<le> 1 / (2 * s)"
    using sym_round_trip_exact(1)[OF assms(1)] by blast
next
  assume "q_min / s \<le> x \<and> x \<le> q_max / s \<and> fl32 (x * s) = x * s \<and>
          fl32 (x * s + 1 / 2) = x * s + 1 / 2 \<and>
          fl32 (dpu_sym_quantize x s q_min q_max / s) = dpu_sym_quantize x s q_min q_max / s"
  then show "\<bar>sym_dequantize (dpu_sym_quantize x s q_min q_max) s q_min q_max - x\<bar>
               \<le> 1 / (2 * s)"
    using sym_round_trip_exact(2)[OF assms(1)] by blast
next
  show "q_min \<le> py3_sym_quantize x s q_min q_max" "py3_sym_quantize x s q_min q_max \<le> q_max"
    "q_min \<le> dpu_sym_quantize x s q_min q_max" "dpu_sym_quantize x s q_min q_max \<le> q_max"
    using clip_by_value_range[OF assms(2)]
    by (simp_all add: py3_sym_quantize_def dpu_sym_quantize_def)
qed

theorem sym_round_trip_bound_witness:
  "(0::real) < 2 \<and> (- 128::real) \<le> 127 \<and> (- 128::real) / 2 \<le> 1 / 4 \<and> (1 / 4::real) \<le> 127 / 2 \<and>
   fl32 (1 / 4 * 2) = 1 / 4 * 2 \<and> fl32 (1 / 4 * 2 + 1 / 2) = 1 / 4 * 2 + 1 / 2 \<and>
   py3_sym_quantize (1 / 4) 2 (- 128) 127 = 0 \<and> dpu_sym_quantize (1 / 4) 2 (- 128) 127 = 1 \<and>
   sym_dequantize (py3_sym_quantize (1 / 4) 2 (- 128) 127) 2 (- 128) 127 = 0 \<and>
   sym_dequantize (dpu_sym_quantize (1 / 4) 2 (- 128) 127) 2 (- 128) 127 = 1 / 2 \<and>
   \<bar>sym_dequantize (py3_sym_quantize (1 / 4) 2 (- 128) 127) 2 (- 128) 127 - 1 / 4\<bar>
     \<le> 1 / (2 * 2) \<and>
   \<bar>sym_dequantize (dpu_sym_quantize (1 / 4) 2 (- 128) 127) 2 (- 128) 127 - 1 / 4\<bar>
     \<le> 1 / (2 * 2)"
proof -
  have p: "py3_sym_quantize (1 / 4) 2 (- 128) 127 = 0"
    by (simp add: py3_sym_quantize_def py3_round_def tf_round_def clip_by_value_def fl32_values)
  have d: "dpu_sym_quantize (1 / 4) 2 (- 128) 127 = 1"
    by (simp add: dpu_sym_quantize_def dpu_round_def clip_by_value_def fl32_values)
  show ?thesis
    using sym_round_trip_bound[of 2 "- 128" 127 "1 / 4"]
    unfolding p d by (simp add: sym_dequantize_def fl32_values)
qed

section \<open>The backward function of the symmetric min-max kernel\<close>

lemma where_mask_row:
  "where_mask [dy] [map P xs] = [map2 (\<lambda>d x. if P x then d else 0) dy xs]"
  by (simp add: where_mask_def ew2_def zip_map2 split_beta cong: if_cong)

text \<open>
  C9: for the symmetric min-max kernel with input [-2, 0, 2], \<open>f_min = -1\<close>, \<open>f_max = 1\<close> and
  upstream gradient [1, 1, 1], the backward function returns the gradient [0, 1, 0] with
  respect to the input. For every per-tensor input the upstream gradient passes unchanged
  exactly where the input lies within \<open>[f_min, f_max]\<close> and is zero elsewhere.
\<close>

theorem grad_mask_scenario:
  "fst (snd (fake_quantize_with_min_max_py3_sym [[- 2, 0, 2]] [- 1] [1] bit_width) [[1, 1, 1]])
     = [[0, 1, 0]] \<and>
   fst (snd (fake_quantize_with_min_max_py3_sym [xs] [f_min] [f_max] bit_width) [dy])
     = [map2 (\<lambda>d x. if f_min \<le> x \<and> x \<le> f_max then d else 0) dy xs]"
proof
  show "fst (snd (fake_quantize_with_min_max_py3_sym [[- 2, 0, 2]] [- 1] [1] bit_width)
          [[1, 1, 1]]) = [[0, 1, 0]]"
    by (simp add: fake_quantize_with_min_max_py3_sym_def Let_def bc_def where_mask_def ew2_def
        split: prod.split)
  show "fst (snd (fake_quantize_with_min_max_py3_sym [xs] [f_min] [f_max] bit_width) [dy])
          = [map2 (\<lambda>d x. if f_min \<le> x \<and> x \<le> f_max then d else 0) dy xs]"
    by (simp add: fake_quantize_with_min_max_py3_sym_def Let_def bc_def where_mask_row
        split: prod.split)
qed

section \<open>The non-overflow position\<close>

text \<open>
  The non-overflow searches divide the float32 logarithm of the scale inverse by the float32
  logarithm of two. To evaluate them, \<open>ln 2\<close> is enclosed between two decimal fractions by
  the Taylor expansion of the exponential function.
\<close>

lemma exp_upper_12:
  fixes x :: real
  assumes "0 \<le> x" "x \<le> 1"
  shows "exp x \<le> (\<Sum>m<12. x ^ m / fact m) + 3 / fact 12 * x ^ 12"
proof -
  obtain t where t: "\<bar>t\<bar> \<le> \<bar>x\<bar>"
    and e: "exp x = (\<Sum>m<12. x ^ m / fact m) + exp t / fact 12 * x ^ 12"
    using Maclaurin_exp_le [of x 12] by blast
  have "exp t \<le> exp 1" using t assms by simp
  also have "\<dots> \<le> 3" using exp_le by simp
  finally have "exp t / fact 12 * x ^ 12 \<le> 3 / fact 12 * x ^ 12"
    using assms by (intro mult_right_mono divide_right_mono) simp_all
  then show ?thesis using e by linarith
qed

lemma exp_lower_12:
  fixes x :: real
  assumes "0 \<le> x"
  shows "(\<Sum>m<12. x ^ m / fact m) \<le> exp x"
proof -
  obtain t where e: "exp x = (\<Sum>m<12. x ^ m / fact m) + exp t / fact 12 * x ^ 12"
    using Maclaurin_exp_le [of x 12] by blast
  have "0 \<le> exp t / fact 12 * x ^ 12" using assms by simp
  then show ?thesis using e by linarith
qed

lemma ln2_lower: "69314718 / 10 ^ 8 < ln (2::real)"
proof -
  have "(\<Sum>m<12. (69314718 / 10 ^ 8 :: real) ^ m / fact m)
          + 3 / fact 12 * (69314718 / 10 ^ 8) ^ 12 < 2"
    by (simp add: lessThan_nat_numeral fact_numeral power_divide)
  moreover have "exp (69314718 / 10 ^ 8 :: real)
      \<le> (\<Sum>m<12. (69314718 / 10 ^ 8 :: real) ^ m / fact m)
          + 3 / fact 12 * (69314718 / 10 ^ 8) ^ 12"
    by (rule exp_upper_12) simp_all
  ultimately have "exp (69314718 / 10 ^ 8 :: real) < 2" by linarith
  then have "ln (exp (69314718 / 10 ^ 8 :: real)) < ln 2"
    by (subst ln_less_cancel_iff) simp_all
  then show ?thesis by simp
qed

lemma ln2_upper: "ln (2::real) < 693147182 / 10 ^ 9"
proof -
  have "2 < (\<Sum>m<12. (693147182 / 10 ^ 9 :: real) ^ m / fact m)"
    by (simp add: lessThan_nat_numeral fact_numeral power_divide)
  moreover have "(\<Sum>m<12. (693147182 / 10 ^ 9 :: real) ^ m / fact m)
      \<le> exp (693147182 / 10 ^ 9)"
    by (rule exp_lower_12) simp
  ultimately have "2 < exp (693147182 / 10 ^ 9 :: real)" by linarith
  then have "ln 2 < ln (exp (693147182 / 10 ^ 9 :: real))"
    by (subst ln_less_cancel_iff) simp_all
  then show ?thesis by simp
qed

lemma tf_round_unique:
  assumes "\<bar>x - of_int k\<bar> < 1 / 2"
  shows "tf_round x = of_int k"
proof -
  have "\<bar>tf_round x - x\<bar> \<le> 1 / 2" by (rule tf_round_near)
  with assms have "\<bar>tf_round x - of_int k\<bar> < 1" by linarith
  moreover obtain j where j: "tf_round x = of_int j"
    using tf_round_Ints [of x] by (auto elim: Ints_cases)
  ultimately have "\<bar>(of_int (j - k) :: real)\<bar> < 1" by simp
  then have "\<bar>j - k\<bar> < 1" by (metis of_int_abs of_int_less_1_iff)
  then show ?thesis using j by simp
qed

text \<open>The float32 logarithms of the powers of two that the examples below meet.\<close>

lemma tf_log_one: "tf_log 1 = 0"
  by (simp add: tf_log_def fl32_zero)

lemma tf_log_2: "tf_log 2 = 11629080 / 2 ^ 24"
proof -
  have r: "tf_round (ln 2 / 2 powr (- 1 - 23)) = of_int 11629080"
    using ln2_lower ln2_upper
    by (intro tf_round_unique) (simp add: powr_neg_numeral abs_if)
  have "fl32 (ln 2) = tf_round (ln 2 / 2 powr (of_int (- 1) - 23)) * 2 powr (of_int (- 1) - 23)"
    using ln2_lower ln2_upper
    by (intro fl32_eval) (simp_all add: powr_neg_numeral abs_if)
  then show ?thesis using r by (simp add: tf_log_def powr_neg_numeral)
qed


lemma ln_128: "ln (128::real) = 7 * ln 2"
proof -
  have e: "(128::real) = 2 ^ 7" by simp
  show ?thesis unfolding e by (subst ln_realpow) simp_all
qed

lemma ln_8192: "ln (8192::real) = 13 * ln 2"
proof -
  have e: "(8192::real) = 2 ^ 13" by simp
  show ?thesis unfolding e by (subst ln_realpow) simp_all
qed

lemma ln_inverse_power_of_two: "ln (1 / 2 ^ n :: real) = - (real n * ln 2)"
  by (simp add: ln_div ln_realpow)

lemma ln_epsilon: "ln float_info_epsilon = - (52 * ln 2)"
  using ln_inverse_power_of_two [of 52] by (simp add: float_info_epsilon_def)

lemma tf_log_128th: "tf_log (1 / 128) = - (10175445 / 2 ^ 21)"
proof -
  have l: "ln (1 / 128 :: real) = - (7 * ln 2)" by (simp add: ln_div ln_128)
  have r: "tf_round (- (7 * ln 2) / 2 powr (2 - 23)) = of_int (- 10175445)"
    using ln2_lower ln2_upper
    by (intro tf_round_unique) (simp add: powr_neg_numeral abs_if)
  have "fl32 (- (7 * ln 2))
      = tf_round (- (7 * ln 2) / 2 powr (of_int 2 - 23)) * 2 powr (of_int 2 - 23)"
    using ln2_lower ln2_upper
    by (intro fl32_eval) (simp_all add: powr_neg_numeral abs_if)
  then show ?thesis using r by (simp add: tf_log_def l powr_neg_numeral)
qed

lemma tf_log_8192th: "tf_log (1 / 8192) = - (9448627 / 2 ^ 20)"
proof -
  have l: "ln (1 / 8192 :: real) = - (13 * ln 2)" by (simp add: ln_div ln_8192)
  have r: "tf_round (- (13 * ln 2) / 2 powr (3 - 23)) = of_int (- 9448627)"
    using ln2_lower ln2_upper
    by (intro tf_round_unique) (simp add: powr_neg_numeral abs_if)
  have "fl32 (- (13 * ln 2))
      = tf_round (- (13 * ln 2) / 2 powr (of_int 3 - 23)) * 2 powr (of_int 3 - 23)"
    using ln2_lower ln2_upper
    by (intro fl32_eval) (simp_all add: powr_neg_numeral abs_if)
  then show ?thesis using r by (simp add: tf_log_def l powr_neg_numeral)
qed

lemma tf_log_epsilon: "tf_log float_info_epsilon = - (9448627 / 2 ^ 18)"
proof -
  have r: "tf_round (- (52 * ln 2) / 2 powr (5 - 23)) = of_int (- 9448627)"
    using ln2_lower ln2_upper
    by (intro tf_round_unique) (simp add: powr_neg_numeral abs_if)
  have "fl32 (- (52 * ln 2))
      = tf_round (- (52 * ln 2) / 2 powr (of_int 5 - 23)) * 2 powr (of_int 5 - 23)"
    using ln2_lower ln2_upper
    by (intro fl32_eval) (simp_all add: powr_neg_numeral abs_if)
  then show ?thesis using r by (simp add: tf_log_def ln_epsilon powr_neg_numeral)
qed

lemma fl32_seven: "fl32 7 = 7"
  by (subst fl32_eval[where e = 2]) (simp_all add: tf_round_def Let_def powr_neg_numeral)

lemma fl32_128th: "fl32 (1 / 128) = 1 / 128"
  by (subst fl32_eval[where e = "- 7"]) (simp_all add: tf_round_def Let_def powr_neg_numeral)

lemma fl32_8192th: "fl32 (1 / 8192) = 1 / 8192"
  by (subst fl32_eval[where e = "- 13"]) (simp_all add: tf_round_def Let_def powr_neg_numeral)

lemma floor_fl32_quotient_13: "\<lfloor>fl32 (18897254 / 1453635)\<rfloor> = 12"
  by (subst fl32_eval[where e = 3]) (simp_all add: tf_round_def Let_def powr_neg_numeral)

lemma floor_fl32_quotient_52: "\<lfloor>fl32 (75589016 / 1453635)\<rfloor> = 51"
  by (subst fl32_eval[where e = 5]) (simp_all add: tf_round_def Let_def powr_neg_numeral)

lemma pos_example: "get_quantize_pos_non_overflow_sym (- 1) (127 / 128) (- 128) 127 = 7"
  by (simp add: get_quantize_pos_non_overflow_sym_def Let_def float_info_epsilon_def
      fl32_128th tf_log_128th tf_log_2 fl32_seven)

lemma power_of_two_example:
  "get_quantize_pos_non_overflow_sym (- (1 / 64)) 0 (- 128) 127 = 12"
  by (simp add: get_quantize_pos_non_overflow_sym_def Let_def float_info_epsilon_def
      fl32_8192th fl32_zero tf_log_8192th tf_log_2 floor_fl32_quotient_13)

lemma epsilon_example:
  "get_quantize_pos_non_overflow_sym 0 0 (- 128) 127 = 51"
proof -
  have "max (max (fl32 (0 / - 128)) (fl32 (0 / 127))) float_info_epsilon = float_info_epsilon"
    by (simp add: fl32_zero float_info_epsilon_def)
  then show ?thesis
    by (simp add: get_quantize_pos_non_overflow_sym_def Let_def
        tf_log_epsilon tf_log_2 floor_fl32_quotient_52)
qed

lemma log2_inverse_power_of_two: "log 2 (1 / 2 ^ n :: real) = - real n"
  by (simp add: log_def ln_inverse_power_of_two)

text \<open>
  C8. The symmetric non-overflow search computes the logarithms and their quotient in
  float32. For an 8-bit quantizer and the range from \<open>- 1 / 64\<close> to \<open>0\<close> the scale inverse
  \<open>max (f_min / q_min) (f_max / q_max) epsilon\<close> is \<open>2 ^ - 13\<close>; the float32 quotient falls just
  below 13 and the search returns 12, where \<open>floor (- log2 (scale inverse))\<close> is 13. For the
  range from \<open>0\<close> to \<open>0\<close> the scale inverse is epsilon, \<open>2 ^ - 52\<close>, and the search returns 51,
  where the floor is 52.
\<close>

theorem non_overflow_sym_power_of_two:
  "get_quantize_pos_non_overflow_sym (- (1 / 64)) 0 (- 128) 127 = 12 \<and>
   \<lfloor>- log 2 (max (max (- (1 / 64) / - 128) (0 / 127)) float_info_epsilon)\<rfloor> = 13 \<and>
   get_quantize_pos_non_overflow_sym 0 0 (- 128) 127 = 51 \<and>
   \<lfloor>- log 2 (max (max (0 / - 128) (0 / 127)) float_info_epsilon)\<rfloor> = 52"
proof (intro conjI)
  show "get_quantize_pos_non_overflow_sym (- (1 / 64)) 0 (- 128) 127 = 12"
    by (rule power_of_two_example)
  have "max (max (- (1 / 64) / - 128) (0 / 127)) float_info_epsilon = 1 / 2 ^ 13"
    by (simp add: float_info_epsilon_def)
  then show "\<lfloor>- log 2 (max (max (- (1 / 64) / - 128) (0 / 127)) float_info_epsilon)\<rfloor> = 13"
    by (simp only: log2_inverse_power_of_two) simp
  show "get_quantize_pos_non_overflow_sym 0 0 (- 128) 127 = 51"
    by (rule epsilon_example)
  have "max (max (0 / - 128) (0 / 127)) float_info_epsilon = 1 / 2 ^ 52"
    by (simp add: float_info_epsilon_def)
  then show "\<lfloor>- log 2 (max (max (0 / - 128) (0 / 127)) float_info_epsilon)\<rfloor> = 52"
    by (simp only: log2_inverse_power_of_two) simp
qed

section \<open>The min-diffs search\<close>






















section \<open>Dispatch of the position search and of the kernels\<close>

lemma q_range_8: "q_range 8 = (- 128, 127)"
  by (simp add: q_range_def narrow_range_def Let_def)

lemma non_overflow_asym_example:
  "get_quantize_pos_non_overflow_asym (- 128) 127 (- 128) 127 = 0"
  by (simp add: get_quantize_pos_non_overflow_asym_def Let_def float_info_epsilon_def
      fl32_255 fl32_one tf_log_one fl32_zero)

text \<open>
  The claim C3 as stated asks for a configuration error when the min-diffs method
  (\<open>method = 1\<close>) meets an asymmetric configuration. The source returns the asymmetric
  non-overflow position instead: the branch on \<open>symmetry\<close> comes before any test of \<open>method\<close>.
\<close>

theorem min_diffs_asym_counterexample:
  "get_quantize_pos [[- 128, 127]] [- 128] [127] 8 1 0 False = Inr [0]"
  by (simp add: get_quantize_pos_def q_range_8 non_overflow_asym_example)

text \<open>
  C3, as amended: with \<open>symmetry\<close> false, \<open>get_quantize_pos\<close> returns the asymmetric
  non-overflow position for every method and every round mode, without an error. With
  \<open>symmetry\<close> true it fails with a configuration error exactly when the method is not 0 and
  the pair of method and round mode is neither (1, 0) nor (1, 1).
\<close>

theorem get_quantize_pos_dispatch:
  "get_quantize_pos inputs f_min f_max bit_width method round_mode False =
     Inr (map2 (\<lambda>mn mx. get_quantize_pos_non_overflow_asym mn mx
                  (fst (q_range bit_width)) (snd (q_range bit_width))) f_min f_max) \<and>
   ((\<exists>e. get_quantize_pos inputs f_min f_max bit_width method round_mode True = Inl e) \<longleftrightarrow>
      method \<noteq> 0 \<and> \<not> (method = 1 \<and> (round_mode = 0 \<or> round_mode = 1)))"
  by (auto simp: get_quantize_pos_def logger_error_def split: prod.splits)

lemma kernel_min_max_py3:
  "get_quantize_kernel ''MIN_MAX'' 0 symmetry per_channel =
     Inr (if symmetry then (if per_channel then MIN_MAX_PY3_SYM_PERC else MIN_MAX_PY3_SYM)
          else (if per_channel then MIN_MAX_PY3_ASYM_PERC else MIN_MAX_PY3_ASYM))"
  by (simp add: get_quantize_kernel_def QUANTIZE_KERNEL_MAP_def)

lemma kernel_invalid_round_mode:
  assumes "round_mode \<noteq> 0" "round_mode \<noteq> 1" "round_mode \<noteq> 2"
  shows "get_quantize_kernel kernel_type round_mode symmetry per_channel =
           Inl (InvalidRoundMode round_mode)"
  using assms by (simp add: get_quantize_kernel_def logger_error_def)

lemma kernel_min_max_dpu:
  "\<exists>e. get_quantize_kernel ''MIN_MAX'' 1 symmetry per_channel = Inl e"
  by (cases symmetry; cases per_channel)
    (simp_all add: get_quantize_kernel_def QUANTIZE_KERNEL_MAP_def logger_error_def)

lemma kernel_min_max_std:
  "\<exists>e. get_quantize_kernel ''MIN_MAX'' 2 symmetry per_channel = Inl e"
  by (cases symmetry; cases per_channel)
    (simp_all add: get_quantize_kernel_def QUANTIZE_KERNEL_MAP_def logger_error_def)

lemma kernel_min_max_found:
  assumes "get_quantize_kernel ''MIN_MAX'' round_mode symmetry per_channel = Inr k"
  shows "round_mode = 0"
proof (rule ccontr)
  assume n0: "round_mode \<noteq> 0"
  consider "round_mode = 1" | "round_mode = 2" | "round_mode \<noteq> 1" "round_mode \<noteq> 2"
    by blast
  then show False
  proof cases
    case 1
    with assms kernel_min_max_dpu[of symmetry per_channel] show False by auto
  next
    case 2
    with assms kernel_min_max_std[of symmetry per_channel] show False by auto
  next
    case 3
    with assms kernel_invalid_round_mode[OF n0 3] show False by simp
  qed
qed

lemma kernel_quantize_pos_py3:
  "get_quantize_kernel ''QUANTIZE_POS'' 0 symmetry per_channel =
     Inr (if symmetry then (if per_channel then QUANTIZE_POS_PY3_SYM_PERC else QUANTIZE_POS_PY3_SYM)
          else (if per_channel then QUANTIZE_POS_PY3_ASYM_PERC else QUANTIZE_POS_PY3_ASYM))"
  by (simp add: get_quantize_kernel_def QUANTIZE_KERNEL_MAP_def)

lemma kernel_log_th:
  "get_quantize_kernel ''LOG_TH'' 0 True False = Inr LOG_TH_PY3_SYM"
  "get_quantize_kernel ''LOG_TH'' 1 True False = Inr LOG_TH_DPU_SYM"
  by (simp_all add: get_quantize_kernel_def QUANTIZE_KERNEL_MAP_def)

lemma with_state_Inr: "with_state r s = Inr (out, s') \<longleftrightarrow> r = Inr out \<and> s' = s"
  by (auto simp: with_state_def split: sum.splits)

section \<open>Position and threshold state in training\<close>

lemma get_min_max_train_example:
  "get_min_max [[- 1, 1 / 2]] 8 True False = ([- 1], [127 / 128])"
  by (simp add: get_min_max_def narrow_range_def reduce_min_def reduce_max_def Let_def)

lemma py3_kernel_example:
  "fst (fake_quantize_with_quantize_pos_py3_sym [[- 1, 1 / 2]] [7] 8) = [[- 1, 1 / 2]]"
  by (simp add: fake_quantize_with_quantize_pos_py3_sym_def q_range_8 bc_def
      quantize_pos_sym_elem_def py3_sym_quantize_def sym_dequantize_def py3_round_def
      tf_round_def clip_by_value_def Let_def fl32_values)

lemma quant_pos_train_example:
  "LastValueQuantPosQuantize [[- 1, 1 / 2]]
     \<lparr>quant_pos_var = [0], log_th_var = [0], min_var = [0], max_var = [0]\<rparr>
     8 0 0 ''QAT'' True True False =
   Inr ([[- 1, 1 / 2]],
        \<lparr>quant_pos_var = [7], log_th_var = [0], min_var = [- 1], max_var = [127 / 128]\<rparr>)"
  by (simp add: LastValueQuantPosQuantize_def kernel_quantize_pos_py3 get_min_max_train_example
      get_quantize_pos_def q_range_8 pos_example with_state_def py3_kernel_example)

text \<open>
  The claim C2 as stated wants \<open>quant_pos_var\<close> untouched by a call in TRAIN mode. A training
  call of \<open>LastValueQuantPosQuantize\<close> in mode \<open>QAT\<close> on the input [-1, 1/2], with the position
  variable at 0, leaves the position 7 behind.
\<close>

theorem train_rewrites_position_counterexample:
  "LastValueQuantPosQuantize [[- 1, 1 / 2]]
     \<lparr>quant_pos_var = [0], log_th_var = [0], min_var = [0], max_var = [0]\<rparr>
     8 0 0 ''QAT'' True True False =
   Inr ([[- 1, 1 / 2]],
        \<lparr>quant_pos_var = [7], log_th_var = [0], min_var = [- 1], max_var = [127 / 128]\<rparr>)"
  by (rule quant_pos_train_example)

lemma log_th_kernel_example:
  "fst (fake_quantize_with_log_th_py3_sym [[- 1, 1 / 2]] [0] 8) = [[- 1, 1 / 2]]"
  by (simp add: fake_quantize_with_log_th_py3_sym_def fake_quantize_with_log_th_def q_range_8
      bc_def py3_sym_quantize_def sym_dequantize_def py3_round_def
      tf_round_def clip_by_value_def Let_def fl32_values)

lemma log_th_train_example:
  "LastValueLogThQuantize [[- 1, 1 / 2]]
     \<lparr>quant_pos_var = [0], log_th_var = [0], min_var = [0], max_var = [0]\<rparr>
     8 0 0 ''QAT'' True =
   Inr ([[- 1, 1 / 2]],
        \<lparr>quant_pos_var = [0], log_th_var = [0], min_var = [- 1], max_var = [127 / 128]\<rparr>)"
  by (simp add: LastValueLogThQuantize_def kernel_log_th get_min_max_train_example
      with_state_def log_th_kernel_example)

lemma log_th_returns:
  assumes "mode \<noteq> ''QCB''" and "round_mode = 0 \<or> round_mode = 1"
  shows "\<exists>out vars'. LastValueLogThQuantize inputs vars bit_width method round_mode mode
           is_training = Inr (out, vars')"
  using assms
  by (auto simp: LastValueLogThQuantize_def kernel_log_th with_state_def Let_def
      split: prod.splits)

lemma log_th_state:
  assumes "LastValueLogThQuantize inputs vars bit_width method round_mode mode is_training =
             Inr (out, vars')"
  shows "quant_pos_var vars' = quant_pos_var vars \<and>
         (if mode = ''ANALYSE'' \<or> is_training \<or> mode = ''QCB'' then
            (min_var vars', max_var vars') = get_min_max inputs bit_width True False
          else min_var vars' = min_var vars \<and> max_var vars' = max_var vars) \<and>
         (if mode = ''QCB'' then
            get_log_th (min_var vars') (max_var vars') bit_width method = Inr (log_th_var vars')
          else log_th_var vars' = log_th_var vars)"
  using assms
  by (auto simp: LastValueLogThQuantize_def with_state_Inr Let_def
      split: sum.splits if_splits prod.splits)

lemma quant_pos_state:
  assumes "LastValueQuantPosQuantize inputs vars bit_width method round_mode mode is_training
             symmetry per_channel = Inr (out, vars')"
  shows "log_th_var vars' = log_th_var vars \<and>
         (if mode = ''ANALYSE'' \<or> is_training \<or> mode = ''QCB'' then
            (min_var vars', max_var vars') = get_min_max inputs bit_width symmetry per_channel
          else min_var vars' = min_var vars \<and> max_var vars' = max_var vars) \<and>
         (if mode \<noteq> ''ANALYSE'' \<and> (is_training \<or> mode = ''QCB'') then
            get_quantize_pos inputs (min_var vars') (max_var vars') bit_width method round_mode
              symmetry = Inr (quant_pos_var vars')
          else quant_pos_var vars' = quant_pos_var vars)"
  using assms
  by (auto simp: LastValueQuantPosQuantize_def with_state_Inr Let_def
      split: sum.splits if_splits prod.splits)

lemma call_quantize_pos_py3:
  "\<exists>out. call_quantize_pos_sym
           (if per_channel then QUANTIZE_POS_PY3_SYM_PERC else QUANTIZE_POS_PY3_SYM)
           inputs quantize_pos bit_width = Inr out"
  "\<exists>out. call_quantize_pos_asym
           (if per_channel then QUANTIZE_POS_PY3_ASYM_PERC else QUANTIZE_POS_PY3_ASYM)
           inputs quantize_pos f_min f_max bit_width = Inr out"
  by simp_all

lemma get_quantize_pos_returns:
  assumes "\<not> symmetry \<or> method = 0 \<or> method = 1"
  shows "\<exists>p. get_quantize_pos inputs f_min f_max bit_width method 0 symmetry = Inr p"
  using assms by (auto simp: get_quantize_pos_def split: prod.splits)

lemma quant_pos_returns:
  assumes "\<not> symmetry \<or> method = 0 \<or> method = 1"
  shows "\<exists>out vars'. LastValueQuantPosQuantize inputs vars bit_width method 0 mode is_training
           symmetry per_channel = Inr (out, vars')"
proof -
  obtain mn mx where mm: "get_min_max inputs bit_width symmetry per_channel = (mn, mx)"
    by (cases "get_min_max inputs bit_width symmetry per_channel")
  obtain p where p: "get_quantize_pos inputs mn mx bit_width method 0 symmetry = Inr p"
    using get_quantize_pos_returns[OF assms] by blast
  obtain o1 where o1: "call_quantize_pos_sym
           (if per_channel then QUANTIZE_POS_PY3_SYM_PERC else QUANTIZE_POS_PY3_SYM)
           inputs p bit_width = Inr o1"
    using call_quantize_pos_py3(1) by blast
  obtain o2 where o2: "call_quantize_pos_asym
           (if per_channel then QUANTIZE_POS_PY3_ASYM_PERC else QUANTIZE_POS_PY3_ASYM)
           inputs p mn mx bit_width = Inr o2"
    using call_quantize_pos_py3(2) by blast
  obtain o3 where o3: "call_quantize_pos_sym
           (if per_channel then QUANTIZE_POS_PY3_SYM_PERC else QUANTIZE_POS_PY3_SYM)
           inputs (quant_pos_var vars) bit_width = Inr o3"
    using call_quantize_pos_py3(1) by blast
  obtain o4 where o4: "call_quantize_pos_asym
           (if per_channel then QUANTIZE_POS_PY3_ASYM_PERC else QUANTIZE_POS_PY3_ASYM)
           inputs (quant_pos_var vars) (min_var vars) (max_var vars) bit_width = Inr o4"
    using call_quantize_pos_py3(2) by blast
  show ?thesis
    using mm p o1 o2 o3 o4
    by (cases symmetry; cases per_channel)
      (simp_all add: LastValueQuantPosQuantize_def kernel_quantize_pos_py3 with_state_def
        Let_def)
qed

text \<open>
  C2, as amended: \<open>LastValueLogThQuantize\<close> writes \<open>log_th_var\<close> in mode \<open>QCB\<close> only, where
  it stores the threshold that \<open>get_log_th\<close> computes from the batch range; in every other
  mode, TRAIN included, it leaves \<open>log_th_var\<close> unchanged, and it returns there for the round
  modes 0 and 1. \<open>LastValueQuantPosQuantize\<close> recomputes the position in every call that is
  training or in mode \<open>QCB\<close>, mode \<open>ANALYSE\<close> apart: it writes the position that
  \<open>get_quantize_pos\<close> computes from the batch range into \<open>quant_pos_var\<close>, in TRAIN as in
  CALIBRATE. In mode \<open>ANALYSE\<close> and in evaluation it leaves \<open>quant_pos_var\<close> unchanged. It
  returns for the round mode 0 whenever the configuration is asymmetric or the method is 0
  or 1. Both operations store the batch range of \<open>get_min_max\<close> in \<open>min_var\<close> and \<open>max_var\<close> in
  every call that is in mode \<open>ANALYSE\<close> or \<open>QCB\<close> or is training, TRAIN included, and leave the
  two variables unchanged in evaluation. Neither operation touches the other's variable.
\<close>

theorem train_mode_state:
  "(\<forall>out vars'.
      LastValueLogThQuantize inputs vars bit_width method round_mode mode is_training =
        Inr (out, vars') \<longrightarrow>
      quant_pos_var vars' = quant_pos_var vars \<and>
      (if mode = ''ANALYSE'' \<or> is_training \<or> mode = ''QCB'' then
         (min_var vars', max_var vars') = get_min_max inputs bit_width True False
       else min_var vars' = min_var vars \<and> max_var vars' = max_var vars) \<and>
      (if mode = ''QCB'' then
         get_log_th (min_var vars') (max_var vars') bit_width method = Inr (log_th_var vars')
       else log_th_var vars' = log_th_var vars)) \<and>
   (mode \<noteq> ''QCB'' \<and> (round_mode = 0 \<or> round_mode = 1) \<longrightarrow>
      (\<exists>out vars'. LastValueLogThQuantize inputs vars bit_width method round_mode mode
         is_training = Inr (out, vars'))) \<and>
   (\<forall>out vars'.
      LastValueQuantPosQuantize inputs vars bit_width method round_mode mode is_training
        symmetry per_channel = Inr (out, vars') \<longrightarrow>
      log_th_var vars' = log_th_var vars \<and>
      (if mode = ''ANALYSE'' \<or> is_training \<or> mode = ''QCB'' then
         (min_var vars', max_var vars') = get_min_max inputs bit_width symmetry per_channel
       else min_var vars' = min_var vars \<and> max_var vars' = max_var vars) \<and>
      (if mode \<noteq> ''ANALYSE'' \<and> (is_training \<or> mode = ''QCB'') then
         get_quantize_pos inputs (min_var vars') (max_var vars') bit_width method round_mode
           symmetry = Inr (quant_pos_var vars')
       else quant_pos_var vars' = quant_pos_var vars)) \<and>
   (round_mode = 0 \<and> (\<not> symmetry \<or> method = 0 \<or> method = 1) \<longrightarrow>
      (\<exists>out vars'. LastValueQuantPosQuantize inputs vars bit_width method round_mode mode
         is_training symmetry per_channel = Inr (out, vars')))"
proof (intro conjI allI impI)
  fix out vars'
  assume "LastValueLogThQuantize inputs vars bit_width method round_mode mode is_training =
            Inr (out, vars')"
  from log_th_state[OF this]
  show "quant_pos_var vars' = quant_pos_var vars"
    and "if mode = ''ANALYSE'' \<or> is_training \<or> mode = ''QCB'' then
           (min_var vars', max_var vars') = get_min_max inputs bit_width True False
         else min_var vars' = min_var vars \<and> max_var vars' = max_var vars"
    and "if mode = ''QCB'' then
           get_log_th (min_var vars') (max_var vars') bit_width method = Inr (log_th_var vars')
         else log_th_var vars' = log_th_var vars"
    by simp_all
next
  assume "mode \<noteq> ''QCB'' \<and> (round_mode = 0 \<or> round_mode = 1)"
  then show "\<exists>out vars'. LastValueLogThQuantize inputs vars bit_width method round_mode mode
               is_training = Inr (out, vars')"
    using log_th_returns by blast
next
  fix out vars'
  assume "LastValueQuantPosQuantize inputs vars bit_width method round_mode mode is_training
            symmetry per_channel = Inr (out, vars')"
  from quant_pos_state[OF this]
  show "log_th_var vars' = log_th_var vars"
    and "if mode = ''ANALYSE'' \<or> is_training \<or> mode = ''QCB'' then
           (min_var vars', max_var vars') = get_min_max inputs bit_width symmetry per_channel
         else min_var vars' = min_var vars \<and> max_var vars' = max_var vars"
    and "if mode \<noteq> ''ANALYSE'' \<and> (is_training \<or> mode = ''QCB'') then
           get_quantize_pos inputs (min_var vars') (max_var vars') bit_width method round_mode
             symmetry = Inr (quant_pos_var vars')
         else quant_pos_var vars' = quant_pos_var vars"
    by simp_all
next
  assume "round_mode = 0 \<and> (\<not> symmetry \<or> method = 0 \<or> method = 1)"
  then show "\<exists>out vars'. LastValueQuantPosQuantize inputs vars bit_width method round_mode mode
         is_training symmetry per_channel = Inr (out, vars')"
    using quant_pos_returns by blast
qed

theorem train_mode_state_witness:
  "LastValueLogThQuantize [[- 1, 1 / 2]]
     \<lparr>quant_pos_var = [0], log_th_var = [0], min_var = [0], max_var = [0]\<rparr>
     8 0 0 ''QAT'' True =
   Inr ([[- 1, 1 / 2]],
        \<lparr>quant_pos_var = [0], log_th_var = [0], min_var = [- 1], max_var = [127 / 128]\<rparr>) \<and>
   LastValueQuantPosQuantize [[- 1, 1 / 2]]
     \<lparr>quant_pos_var = [0], log_th_var = [0], min_var = [0], max_var = [0]\<rparr>
     8 0 0 ''QAT'' True True False =
   Inr ([[- 1, 1 / 2]],
        \<lparr>quant_pos_var = [7], log_th_var = [0], min_var = [- 1], max_var = [127 / 128]\<rparr>) \<and>
   get_min_max [[- 1, 1 / 2]] 8 True False = ([- 1], [127 / 128]) \<and>
   get_quantize_pos [[- 1, 1 / 2]] [- 1] [127 / 128] 8 0 0 True = Inr [7]"
  using train_mode_state[of "[[- 1, 1 / 2]]"
      "\<lparr>quant_pos_var = [0], log_th_var = [0], min_var = [0], max_var = [0]\<rparr>" 8 0 0
      "''QAT''" True True False]
  by (simp add: log_th_train_example quant_pos_train_example get_min_max_train_example)

section \<open>The mode ANALYSE\<close>

text \<open>
  C5, as amended: in mode \<open>ANALYSE\<close>, whenever the kernel lookup succeeds, every quantize
  operation returns its input unchanged. The three last-value operations store the batch
  minimum and maximum by direct assignment. \<open>MovingAvgMinMaxQuantize\<close> updates both variables
  through \<open>assign_moving_average\<close> with the configured decay and \<open>zero_debias\<close> false: a moving
  average, not a direct assignment.
\<close>

theorem analyse_mode:
  "(get_quantize_kernel ''MIN_MAX'' round_mode symmetry per_channel = Inr k1 \<longrightarrow>
      LastValueMinMaxQuantize inputs vars bit_width round_mode ''ANALYSE'' is_training symmetry
        per_channel =
      Inr (inputs, vars\<lparr>min_var := fst (get_min_max inputs bit_width symmetry per_channel),
                         max_var := snd (get_min_max inputs bit_width symmetry per_channel)\<rparr>)) \<and>
   (get_quantize_kernel ''QUANTIZE_POS'' round_mode symmetry per_channel = Inr k2 \<longrightarrow>
      LastValueQuantPosQuantize inputs vars bit_width method round_mode ''ANALYSE'' is_training
        symmetry per_channel =
      Inr (inputs, vars\<lparr>min_var := fst (get_min_max inputs bit_width symmetry per_channel),
                         max_var := snd (get_min_max inputs bit_width symmetry per_channel)\<rparr>)) \<and>
   (get_quantize_kernel ''LOG_TH'' round_mode True False = Inr k3 \<longrightarrow>
      LastValueLogThQuantize inputs vars bit_width method round_mode ''ANALYSE'' is_training =
      Inr (inputs, vars\<lparr>min_var := fst (get_min_max inputs bit_width True False),
                         max_var := snd (get_min_max inputs bit_width True False)\<rparr>)) \<and>
   (get_quantize_kernel ''MIN_MAX'' round_mode False per_channel = Inr k4 \<longrightarrow>
      MovingAvgMinMaxQuantize read assign_moving_average inputs (mn, mx) bit_width round_mode
        ''ANALYSE'' is_training per_channel ema_decay =
      Inr (inputs,
           assign_moving_average mn (fst (get_min_max inputs bit_width False per_channel))
             ema_decay False,
           assign_moving_average mx (snd (get_min_max inputs bit_width False per_channel))
             ema_decay False))"
  by (simp add: LastValueMinMaxQuantize_def LastValueQuantPosQuantize_def
      LastValueLogThQuantize_def MovingAvgMinMaxQuantize_def Let_def split: prod.splits)

lemma get_min_max_analyse_example:
  "get_min_max [[- 3, 2]] 8 False False = ([- 3], [2])"
  "get_min_max [[- 3, 2]] 8 True False = ([- 3], [381 / 128])"
  by (simp_all add: get_min_max_def narrow_range_def reduce_min_def reduce_max_def Let_def)

lemma moving_avg_analyse_example:
  "MovingAvgMinMaxQuantize ema_value tf_assign_moving_average [[- 3, 2]]
     (\<lparr>ema_value = [- 1], biased = [0], local_step = 0\<rparr>,
      \<lparr>ema_value = [1], biased = [0], local_step = 0\<rparr>)
     8 0 ''ANALYSE'' False False (1 / 2) =
   Inr ([[- 3, 2]],
        \<lparr>ema_value = [- 2], biased = [0], local_step = 0\<rparr>,
        \<lparr>ema_value = [3 / 2], biased = [0], local_step = 0\<rparr>)"
  by (simp add: MovingAvgMinMaxQuantize_def kernel_min_max_py3 get_min_max_analyse_example
      tf_assign_moving_average_def)

text \<open>
  The claim C5 as stated wants direct assignment in mode \<open>ANALYSE\<close> also for the
  moving-average operation. With the variables at -1 and 1, the decay 1/2 and the batch
  range [-3, 2], the operation leaves -2 and 3/2 behind, not -3 and 2; the slot variables
  of the bias correction stay as they are.
\<close>

theorem moving_avg_analyse_counterexample:
  "get_min_max [[- 3, 2]] 8 False False = ([- 3], [2]) \<and>
   MovingAvgMinMaxQuantize ema_value tf_assign_moving_average [[- 3, 2]]
     (\<lparr>ema_value = [- 1], biased = [0], local_step = 0\<rparr>,
      \<lparr>ema_value = [1], biased = [0], local_step = 0\<rparr>)
     8 0 ''ANALYSE'' False False (1 / 2) =
   Inr ([[- 3, 2]],
        \<lparr>ema_value = [- 2], biased = [0], local_step = 0\<rparr>,
        \<lparr>ema_value = [3 / 2], biased = [0], local_step = 0\<rparr>)"
  by (simp add: get_min_max_analyse_example moving_avg_analyse_example)

theorem analyse_mode_witness:
  "get_quantize_kernel ''MIN_MAX'' 0 True False = Inr MIN_MAX_PY3_SYM \<and>
   get_quantize_kernel ''QUANTIZE_POS'' 0 True False = Inr QUANTIZE_POS_PY3_SYM \<and>
   get_quantize_kernel ''LOG_TH'' 0 True False = Inr LOG_TH_PY3_SYM \<and>
   get_quantize_kernel ''MIN_MAX'' 0 False False = Inr MIN_MAX_PY3_ASYM \<and>
   LastValueMinMaxQuantize [[- 3, 2]]
     \<lparr>quant_pos_var = [0], log_th_var = [0], min_var = [0], max_var = [0]\<rparr>
     8 0 ''ANALYSE'' False True False =
   Inr ([[- 3, 2]],
        \<lparr>quant_pos_var = [0], log_th_var = [0], min_var = [- 3], max_var = [381 / 128]\<rparr>) \<and>
   LastValueQuantPosQuantize [[- 3, 2]]
     \<lparr>quant_pos_var = [0], log_th_var = [0], min_var = [0], max_var = [0]\<rparr>
     8 0 0 ''ANALYSE'' False True False =
   Inr ([[- 3, 2]],
        \<lparr>quant_pos_var = [0], log_th_var = [0], min_var = [- 3], max_var = [381 / 128]\<rparr>) \<and>
   LastValueLogThQuantize [[- 3, 2]]
     \<lparr>quant_pos_var = [0], log_th_var = [0], min_var = [0], max_var = [0]\<rparr>
     8 0 0 ''ANALYSE'' False =
   Inr ([[- 3, 2]],
        \<lparr>quant_pos_var = [0], log_th_var = [0], min_var = [- 3], max_var = [381 / 128]\<rparr>) \<and>
   MovingAvgMinMaxQuantize ema_value tf_assign_moving_average [[- 3, 2]]
     (\<lparr>ema_value = [- 1], biased = [0], local_step = 0\<rparr>,
      \<lparr>ema_value = [1], biased = [0], local_step = 0\<rparr>)
     8 0 ''ANALYSE'' False False (1 / 2) =
   Inr ([[- 3, 2]],
        \<lparr>ema_value = [- 2], biased = [0], local_step = 0\<rparr>,
        \<lparr>ema_value = [3 / 2], biased = [0], local_step = 0\<rparr>)"
  using analyse_mode[of 0 True False MIN_MAX_PY3_SYM "[[- 3, 2]]"
      "\<lparr>quant_pos_var = [0], log_th_var = [0], min_var = [0], max_var = [0]\<rparr>" 8 False
      QUANTIZE_POS_PY3_SYM 0 LOG_TH_PY3_SYM MIN_MAX_PY3_ASYM ema_value
      tf_assign_moving_average
      "\<lparr>ema_value = [- 1], biased = [0], local_step = 0\<rparr>"
      "\<lparr>ema_value = [1], biased = [0], local_step = 0\<rparr>" "1 / 2"]
  by (simp add: kernel_min_max_py3 kernel_quantize_pos_py3 kernel_log_th
      get_min_max_analyse_example tf_assign_moving_average_def)

section \<open>The moving-average operation is asymmetric\<close>

lemma get_min_max_asym:
  "get_min_max inputs bit_width False per_channel =
     (if per_channel
      then (map (\<lambda>c. min (reduce_min c) 0) inputs, map (\<lambda>c. max (reduce_max c) 0) inputs)
      else ([min (reduce_min (concat inputs)) 0], [max (reduce_max (concat inputs)) 0]))"
  by (simp add: get_min_max_def comp_def)

lemma get_min_max_asym_includes_zero:
  "(\<forall>x\<in>set (fst (get_min_max inputs bit_width False per_channel)). x \<le> 0) \<and>
   (\<forall>x\<in>set (snd (get_min_max inputs bit_width False per_channel)). 0 \<le> x)"
  by (auto simp: get_min_max_asym)

lemma asym_perc_forward:
  "fst (fake_quantize_with_min_max_py3_asym_perc inputs f_min f_max bit_width) =
   fst (fake_quantize_with_min_max_py3_asym inputs f_min f_max bit_width)"
  by (simp add: fake_quantize_with_min_max_py3_asym_perc_def
      fake_quantize_with_min_max_py3_asym_def Let_def split: prod.splits)

lemma call_min_max_asym:
  "call_min_max (if per_channel then MIN_MAX_PY3_ASYM_PERC else MIN_MAX_PY3_ASYM)
     inputs f_min f_max bit_width =
   Inr (fst (fake_quantize_with_min_max_py3_asym inputs f_min f_max bit_width))"
  by (simp add: asym_perc_forward)

lemma moving_avg_py3:
  "MovingAvgMinMaxQuantize read assign_moving_average inputs (mn, mx) bit_width 0 mode
     is_training per_channel ema_decay =
   (let b = get_min_max inputs bit_width False per_channel
    in if mode = ''ANALYSE'' then
         Inr (inputs, assign_moving_average mn (fst b) ema_decay False,
              assign_moving_average mx (snd b) ema_decay False)
       else if is_training \<or> mode = ''QCB'' then
         Inr (fst (fake_quantize_with_min_max_py3_asym inputs
                     (read (assign_moving_average mn (fst b) ema_decay True))
                     (read (assign_moving_average mx (snd b) ema_decay True)) bit_width),
              assign_moving_average mn (fst b) ema_decay True,
              assign_moving_average mx (snd b) ema_decay True)
       else
         Inr (fst (fake_quantize_with_min_max_py3_asym inputs (read mn) (read mx) bit_width),
              mn, mx))"
  by (simp add: MovingAvgMinMaxQuantize_def kernel_min_max_py3 call_min_max_asym with_state_def
      Let_def split: prod.splits)

lemma moving_avg_round_mode:
  assumes "MovingAvgMinMaxQuantize read assign_moving_average inputs (mn, mx) bit_width
             round_mode mode is_training per_channel ema_decay = Inr r"
  shows "round_mode = 0"
proof -
  from assms obtain k where "get_quantize_kernel ''MIN_MAX'' round_mode False per_channel = Inr k"
    by (cases "get_quantize_kernel ''MIN_MAX'' round_mode False per_channel")
      (simp_all add: MovingAvgMinMaxQuantize_def)
  then show ?thesis by (rule kernel_min_max_found)
qed

lemma estimated_range:
  assumes "mn' = f mn (fst b) d zd" and "mx' = f mx (snd b) d zd"
    and "(\<forall>x\<in>set (fst b). x \<le> (0::real)) \<and> (\<forall>x\<in>set (snd b). (0::real) \<le> x)"
  shows "\<exists>b_min b_max zero_debias.
           (b_min, b_max) = b \<and> (\<forall>x\<in>set b_min. x \<le> 0) \<and> (\<forall>x\<in>set b_max. 0 \<le> x) \<and>
           mn' = f mn b_min d zero_debias \<and> mx' = f mx b_max d zero_debias"
  using assms
  by (intro exI[of _ "fst b"] exI[of _ "snd b"] exI[of _ zd]) simp

text \<open>
  C10: \<open>MovingAvgMinMaxQuantize\<close> has no symmetry parameter and looks its kernel up with
  symmetry false: a lookup that succeeds yields an asymmetric min-max kernel, and with the
  round mode 0 the operation always returns. Whenever it returns, its output outside mode
  \<open>ANALYSE\<close> is the forward value of the asymmetric min-max kernel on the variables it leaves
  behind, and every range it estimates comes from \<open>get_min_max\<close> with symmetry false, whose
  minimum is at most zero and whose maximum is at least zero.
\<close>

theorem moving_avg_always_asymmetric:
  "(\<forall>k. get_quantize_kernel ''MIN_MAX'' round_mode False per_channel = Inr k \<longrightarrow>
        round_mode = 0 \<and> k = (if per_channel then MIN_MAX_PY3_ASYM_PERC else MIN_MAX_PY3_ASYM)) \<and>
   (\<exists>r. MovingAvgMinMaxQuantize read assign_moving_average inputs (mn, mx) bit_width 0 mode
           is_training per_channel ema_decay = Inr r) \<and>
   (\<forall>out mn' mx'.
      MovingAvgMinMaxQuantize read assign_moving_average inputs (mn, mx) bit_width round_mode
        mode is_training per_channel ema_decay = Inr (out, mn', mx') \<longrightarrow>
      (if mode = ''ANALYSE'' then out = inputs
       else out = fst (fake_quantize_with_min_max_py3_asym inputs (read mn') (read mx')
                         bit_width)) \<and>
      (if mode = ''ANALYSE'' \<or> is_training \<or> mode = ''QCB'' then
         \<exists>b_min b_max zero_debias.
           (b_min, b_max) = get_min_max inputs bit_width False per_channel \<and>
           (\<forall>x\<in>set b_min. x \<le> 0) \<and> (\<forall>x\<in>set b_max. 0 \<le> x) \<and>
           mn' = assign_moving_average mn b_min ema_decay zero_debias \<and>
           mx' = assign_moving_average mx b_max ema_decay zero_debias
       else mn' = mn \<and> mx' = mx))"
proof (intro conjI allI impI)
  fix k assume k: "get_quantize_kernel ''MIN_MAX'' round_mode False per_channel = Inr k"
  then show "round_mode = 0" by (rule kernel_min_max_found)
  with k show "k = (if per_channel then MIN_MAX_PY3_ASYM_PERC else MIN_MAX_PY3_ASYM)"
    by (simp add: kernel_min_max_py3)
next
  show "\<exists>r. MovingAvgMinMaxQuantize read assign_moving_average inputs (mn, mx) bit_width 0 mode
           is_training per_channel ema_decay = Inr r"
    by (simp add: moving_avg_py3 Let_def)
next
  fix out mn' mx'
  assume r: "MovingAvgMinMaxQuantize read assign_moving_average inputs (mn, mx) bit_width
               round_mode mode is_training per_channel ema_decay = Inr (out, mn', mx')"
  then have rm: "round_mode = 0" by (rule moving_avg_round_mode)
  note r0 = r[unfolded rm moving_avg_py3 Let_def]
  show "if mode = ''ANALYSE'' then out = inputs
        else out = fst (fake_quantize_with_min_max_py3_asym inputs (read mn') (read mx')
                          bit_width)"
    using r0 by (auto split: if_splits)
  let ?b = "get_min_max inputs bit_width False per_channel"
  have zero: "(\<forall>x\<in>set (fst ?b). x \<le> 0) \<and> (\<forall>x\<in>set (snd ?b). 0 \<le> x)"
    by (rule get_min_max_asym_includes_zero)
  show "if mode = ''ANALYSE'' \<or> is_training \<or> mode = ''QCB'' then
         \<exists>b_min b_max zero_debias.
           (b_min, b_max) = get_min_max inputs bit_width False per_channel \<and>
           (\<forall>x\<in>set b_min. x \<le> 0) \<and> (\<forall>x\<in>set b_max. 0 \<le> x) \<and>
           mn' = assign_moving_average mn b_min ema_decay zero_debias \<and>
           mx' = assign_moving_average mx b_max ema_decay zero_debias
       else mn' = mn \<and> mx' = mx"
  proof (cases "mode = ''ANALYSE''")
    case True
    with r0 have "mn' = assign_moving_average mn (fst ?b) ema_decay False"
      "mx' = assign_moving_average mx (snd ?b) ema_decay False" by auto
    from estimated_range[of mn' assign_moving_average mn ?b ema_decay _ mx' mx, OF this zero] True
    show ?thesis by simp
  next
    case False
    show ?thesis
    proof (cases "is_training \<or> mode = ''QCB''")
      case True
      with r0 False have "mn' = assign_moving_average mn (fst ?b) ema_decay True"
        "mx' = assign_moving_average mx (snd ?b) ema_decay True" by auto
      from estimated_range[of mn' assign_moving_average mn ?b ema_decay _ mx' mx, OF this zero] True
    show ?thesis by simp
    next
      case F2: False
      with r0 False show ?thesis by auto
    qed
  qed
qed

lemma zero_point_example: "quantize_zero_point (255 / 2) 0 2 (- 128) 127 = (- 128, 0, 2)"
  by (simp add: quantize_zero_point_def std_round_def tf_round_def Let_def)

lemma fl32_256_255: "fl32 (256 / 255) = 8421505 / 8388608"
  by (subst fl32_eval[where e = 0]) (simp_all add: tf_round_def Let_def powr_neg_numeral)

lemma fl32_8421505: "fl32 (8421505 / 8388608) = 8421505 / 8388608"
  by (subst fl32_eval[where e = 0]) (simp_all add: tf_round_def Let_def powr_neg_numeral)

lemma asym_elem_example:
  "min_max_asym_elem (- 128) 127 1 (0, 2) = 8421505 / 8388608"
  "min_max_asym_elem (- 128) 127 2 (0, 2) = 2"
  by (simp_all add: min_max_asym_elem_def get_scale_def zero_point_example
      py3_asym_quantize_def asym_dequantize_def py3_round_def tf_round_def clip_by_value_def
      fl32_values fl32_256_255 fl32_8421505)

lemma asym_kernel_example:
  "fst (fake_quantize_with_min_max_py3_asym [[1, 2]] [0] [2] 8) = [[8421505 / 8388608, 2]]"
  by (simp add: fake_quantize_with_min_max_py3_asym_def q_range_8 bc_def asym_elem_example
      Let_def)

lemma get_min_max_positive_example: "get_min_max [[1, 2]] 8 False False = ([0], [2])"
  by (simp add: get_min_max_asym reduce_min_def reduce_max_def)

theorem moving_avg_always_asymmetric_witness:
  "get_quantize_kernel ''MIN_MAX'' 0 False False = Inr MIN_MAX_PY3_ASYM \<and>
   get_min_max [[1, 2]] 8 False False = ([0], [2]) \<and>
   MovingAvgMinMaxQuantize ema_value tf_assign_moving_average [[1, 2]]
     (\<lparr>ema_value = [0], biased = [0], local_step = 0\<rparr>,
      \<lparr>ema_value = [0], biased = [0], local_step = 0\<rparr>)
     8 0 ''QAT'' True False (1 / 2) =
   Inr ([[8421505 / 8388608, 2]],
        \<lparr>ema_value = [0], biased = [0], local_step = 1\<rparr>,
        \<lparr>ema_value = [2], biased = [1], local_step = 1\<rparr>)"
  using moving_avg_always_asymmetric[of 0 False ema_value tf_assign_moving_average "[[1, 2]]"
      "\<lparr>ema_value = [0], biased = [0], local_step = 0\<rparr>"
      "\<lparr>ema_value = [0], biased = [0], local_step = 0\<rparr>" 8 "''QAT''" True "1 / 2"]
  by (simp add: kernel_min_max_py3 get_min_max_positive_example moving_avg_py3
      tf_assign_moving_average_def asym_kernel_example)


end
